theory Spec2Isabelle
  imports Complex_Main "HOL-Library.AList" "HOL-Library.Sublist" "HOL-Library.Code_Target_Nat"
begin

section \<open>JavaScript numbers\<close>

text \<open>
  Every number of the scripts is an IEEE 754 binary64 value. A finite value is
  carried as the rational it denotes; the two infinities and NaN are separate
  constructors. The sign of zero is not tracked: the scripts never divide by a
  negative or a computed zero of negative sign, which is the only place where
  it could be observed.
\<close>

datatype jsnum = NaN | PInf | NInf | Fin rat

text \<open>\<open>ilog2 n\<close> is the position of the highest set bit of a positive \<open>n\<close>.\<close>

function ilog2 :: "int \<Rightarrow> int" where
  "ilog2 n = (if n < 2 then 0 else 1 + ilog2 (n div 2))"
  by pat_completeness auto
termination
  by (relation "measure nat") auto

declare ilog2.simps [simp del]

definition pow2 :: "int \<Rightarrow> rat" where
  "pow2 k = (if 0 \<le> k then 2 ^ nat k else 1 / 2 ^ nat (- k))"

text \<open>
  \<open>binexp p q\<close>, for positive \<open>p\<close> and \<open>q\<close>, is the exponent \<open>e\<close> with
  \<open>2^e \<le> p/q < 2^(e+1)\<close>.
\<close>

definition binexp :: "int \<Rightarrow> int \<Rightarrow> int" where
  "binexp p q =
     (let d = ilog2 p - ilog2 q
      in if (if 0 \<le> d then q * 2 ^ nat d \<le> p else q \<le> p * 2 ^ nat (- d))
         then d else d - 1)"

text \<open>
  \<open>rne p q\<close> is the integer nearest to \<open>p/q\<close> (for \<open>0 \<le> p\<close> and \<open>0 < q\<close>),
  a tie going to the even neighbour.
\<close>

definition rne :: "int \<Rightarrow> int \<Rightarrow> int" where
  "rne p q =
     (let f = p div q; r = p mod q
      in if 2 * r < q then f
         else if q < 2 * r then f + 1
         else if even f then f else f + 1)"

text \<open>
  \<open>fl_pos p q\<close> rounds the positive rational \<open>p/q\<close> to binary64: 53
  significant bits in the normal range, the fixed quantum \<open>2^-1074\<close> below
  \<open>2^-1022\<close>, and infinity once the rounded value reaches \<open>2^1024\<close>
  (binary exponent above 1023, or exponent 1023 with the significand rounded up
  to \<open>2^53\<close>).
\<close>

definition fl_pos :: "int \<Rightarrow> int \<Rightarrow> jsnum" where
  "fl_pos p q =
     (let e = binexp p q;
          k = max (e - 52) (- 1074);
          m = (if 0 \<le> k then rne p (q * 2 ^ nat k) else rne (p * 2 ^ nat (- k)) q)
      in if 1023 < e \<or> (e = 1023 \<and> 2 ^ 53 \<le> m) then PInf
         else Fin (rat_of_int m * pow2 k))"

definition js_neg :: "jsnum \<Rightarrow> jsnum" where
  "js_neg a = (case a of NaN \<Rightarrow> NaN | PInf \<Rightarrow> NInf | NInf \<Rightarrow> PInf | Fin x \<Rightarrow> Fin (- x))"

text \<open>\<open>fl x\<close> is the binary64 value nearest to the rational \<open>x\<close>.\<close>

definition fl :: "rat \<Rightarrow> jsnum" where
  "fl x =
     (let (n, d) = quotient_of x
      in if n = 0 then Fin 0
         else if 0 < n then fl_pos n d
         else js_neg (fl_pos (- n) d))"

definition js_add :: "jsnum \<Rightarrow> jsnum \<Rightarrow> jsnum" where
  "js_add a b =
     (case (a, b) of
        (NaN, _) \<Rightarrow> NaN
      | (_, NaN) \<Rightarrow> NaN
      | (PInf, NInf) \<Rightarrow> NaN
      | (NInf, PInf) \<Rightarrow> NaN
      | (PInf, _) \<Rightarrow> PInf
      | (NInf, _) \<Rightarrow> NInf
      | (_, PInf) \<Rightarrow> PInf
      | (_, NInf) \<Rightarrow> NInf
      | (Fin x, Fin y) \<Rightarrow> fl (x + y))"

definition js_sub :: "jsnum \<Rightarrow> jsnum \<Rightarrow> jsnum" where
  "js_sub a b = js_add a (js_neg b)"

text \<open>The sign of a number: \<open>None\<close> for NaN.\<close>

definition js_sign :: "jsnum \<Rightarrow> int option" where
  "js_sign a =
     (case a of
        NaN \<Rightarrow> None
      | PInf \<Rightarrow> Some 1
      | NInf \<Rightarrow> Some (- 1)
      | Fin x \<Rightarrow> Some (if x < 0 then - 1 else if x = 0 then 0 else 1))"

definition js_mul :: "jsnum \<Rightarrow> jsnum \<Rightarrow> jsnum" where
  "js_mul a b =
     (case (a, b) of
        (Fin x, Fin y) \<Rightarrow> fl (x * y)
      | _ \<Rightarrow>
         (case (js_sign a, js_sign b) of
            (Some s, Some t) \<Rightarrow>
              if s * t = 0 then NaN else if 0 < s * t then PInf else NInf
          | _ \<Rightarrow> NaN))"

definition js_div :: "jsnum \<Rightarrow> jsnum \<Rightarrow> jsnum" where
  "js_div a b =
     (case (a, b) of
        (NaN, _) \<Rightarrow> NaN
      | (_, NaN) \<Rightarrow> NaN
      | (Fin x, Fin y) \<Rightarrow>
          if y = 0 then (if x = 0 then NaN else if 0 < x then PInf else NInf)
          else fl (x / y)
      | (Fin x, _) \<Rightarrow> Fin 0
      | (_, Fin y) \<Rightarrow> (if (a = PInf) = (0 \<le> y) then PInf else NInf)
      | _ \<Rightarrow> NaN)"

definition js_lt :: "jsnum \<Rightarrow> jsnum \<Rightarrow> bool" where
  "js_lt a b =
     (case (a, b) of
        (NaN, _) \<Rightarrow> False
      | (_, NaN) \<Rightarrow> False
      | (_, NInf) \<Rightarrow> False
      | (PInf, _) \<Rightarrow> False
      | (NInf, _) \<Rightarrow> True
      | (_, PInf) \<Rightarrow> True
      | (Fin x, Fin y) \<Rightarrow> x < y)"

definition js_gt :: "jsnum \<Rightarrow> jsnum \<Rightarrow> bool" where
  "js_gt a b = js_lt b a"

text \<open>\<open>Number(n)\<close> for a non-negative integer given in decimal or hexadecimal.\<close>

definition Number_of :: "nat \<Rightarrow> jsnum" where
  "Number_of n = fl (rat_of_nat n)"

section \<open>Rendering and reading numbers\<close>

text \<open>The character of a decimal digit \<open>d\<close>, \<open>0 \<le> d \<le> 9\<close>.\<close>

definition digit_char :: "int \<Rightarrow> char" where
  "digit_char d = ''0123456789'' ! nat d"

text \<open>The decimal digits of a non-negative integer, without leading zeros.\<close>

function dec_digits :: "int \<Rightarrow> string" where
  "dec_digits n =
     (if n < 10 then [digit_char n] else dec_digits (n div 10) @ [digit_char (n mod 10)])"
  by pat_completeness auto
termination
  by (relation "measure nat") auto

declare dec_digits.simps [simp del]

text \<open>
  \<open>Number::toString\<close> for a finite value of at least \<open>10^21\<close> (an integer, as
  every binary64 value of that size is): the shortest digit string \<open>s\<close> of
  \<open>k\<close> digits such that \<open>s \<times> 10^(n-k)\<close> rounds to the value, the nearest one
  when two of the same length do, written in exponential notation.
  \<open>shortest_candidate xi d k\<close> looks at the two multiples of \<open>10^(d-k)\<close> around
  \<open>xi\<close>.
\<close>

definition shortest_candidate :: "int \<Rightarrow> nat \<Rightarrow> nat \<Rightarrow> int option" where
  "shortest_candidate xi d k =
     (let u = 10 ^ (d - k);
          lo = (xi div u) * u;
          hi = lo + u;
          okl = (fl (rat_of_int lo) = Fin (rat_of_int xi));
          okh = (fl (rat_of_int hi) = Fin (rat_of_int xi))
      in if okl \<and> okh then
           Some (if xi - lo < hi - xi then lo
                 else if hi - xi < xi - lo then hi
                 else if even (lo div u) then lo else hi)
         else if okl then Some lo
         else if okh then Some hi
         else None)"

fun shortest_search :: "int \<Rightarrow> nat \<Rightarrow> nat list \<Rightarrow> int" where
  "shortest_search xi d [] = xi"
| "shortest_search xi d (k # ks) =
     (case shortest_candidate xi d k of Some c \<Rightarrow> c | None \<Rightarrow> shortest_search xi d ks)"

fun strip_zeros :: "string \<Rightarrow> string" where
  "strip_zeros [] = []"
| "strip_zeros (c # cs) =
     (let r = strip_zeros cs in if r = [] \<and> c = CHR ''0'' then [] else c # r)"

definition toString_large :: "rat \<Rightarrow> string" where
  "toString_large a =
     (let xi = \<lfloor>a\<rfloor>;
          d = length (dec_digits xi);
          c = shortest_search xi d [1, 2, 3, 4, 5, 6, 7, 8, 9, 10, 11, 12, 13, 14, 15, 16, 17];
          ds = dec_digits c;
          sig = strip_zeros ds
      in (case sig of
            [] \<Rightarrow> []
          | [c1] \<Rightarrow> [c1]
          | c1 # rest \<Rightarrow> c1 # CHR ''.'' # rest)
         @ ''e+'' @ dec_digits (int (length ds) - 1))"

text \<open>
  \<open>Number.prototype.toFixed(f)\<close> (ECMAScript 21.1.3.3), for \<open>0 \<le> f \<le> 100\<close>:
  a non-finite value is spelt out; a value of magnitude \<open>10^21\<close> or more goes
  through \<open>toString\<close>; otherwise the integer \<open>n\<close> nearest to \<open>x \<times> 10^f\<close> is
  taken (the larger one on a tie), padded with zeros to \<open>f + 1\<close> digits, and
  the point is put before the last \<open>f\<close> digits.
\<close>

definition toFixed :: "jsnum \<Rightarrow> nat \<Rightarrow> string" where
  "toFixed x f =
     (case x of
        NaN \<Rightarrow> ''NaN''
      | PInf \<Rightarrow> ''Infinity''
      | NInf \<Rightarrow> ''-Infinity''
      | Fin r \<Rightarrow>
          (let s = (if r < 0 then ''-'' else []);
               a = \<bar>r\<bar>
           in if 10 ^ 21 \<le> a then s @ toString_large a
              else
                (let n = \<lfloor>a * 10 ^ f + 1 / 2\<rfloor>;
                     m = dec_digits n;
                     m' = replicate (f + 1 - length m) CHR ''0'' @ m;
                     k = length m'
                 in s @ (if f = 0 then m'
                         else take (k - f) m' @ ''.'' @ drop (k - f) m'))))"

section \<open>Chain data and the configuration\<close>

type_synonym address = string

text \<open>A thrown JavaScript exception, with its message.\<close>

datatype js_error = JsError string

text \<open>
  \<open>exposure.toJSON()\<close> of \<open>api.query.staking.erasStakers(era, validator)\<close>:
  the total, the validator's own value and the list of \<open>{who, value}\<close>
  entries, values in the chain's native unit.
\<close>

record exposure =
  total_exp :: nat
  own_exp :: nat
  others :: "(address \<times> nat) list"

text \<open>
  The connected \<open>api\<close> object, as far as the scripts query it. Every query is a
  promise that may reject (\<open>Inl\<close>); a rejection also stands for a result on
  which the callback throws while it decodes it.
  \<^item> \<open>staking_validators v\<close>: the preferences of \<open>v\<close>; \<open>Some c\<close> carries the
    commission in parts per billion, \<open>None\<close> is a nullish \<open>prefs\<close>.
  \<^item> \<open>staking_account v\<close>: \<open>stakingInfo?.stakingLedger?.total\<close>; \<open>None\<close> when
    the chain of optional accesses ends in \<open>undefined\<close>.
  \<^item> \<open>erasStakers era v\<close>: the exposure of \<open>v\<close> in the era.
  \<^item> \<open>session_validators\<close>: the active validator set.
  \<^item> \<open>activeEra\<close>: the option holding the active era index.
  \<^item> \<open>nominators_entries\<close>: the nominator registry; the target list of an
    entry is \<open>None\<close> when \<open>nominations.unwrap()\<close> throws on it.
\<close>

record api =
  staking_validators :: "address \<Rightarrow> js_error + nat option"
  staking_account :: "address \<Rightarrow> js_error + nat option"
  erasStakers :: "nat \<Rightarrow> address \<Rightarrow> js_error + exposure"
  session_validators :: "js_error + address list"
  activeEra :: "js_error + nat option"
  nominators_entries :: "js_error + (address \<times> address list option) list"

text \<open>\<open>DEFAULT_CONFIG\<close> of validator-cli.js, which is \<open>CONFIG\<close> of the earlier script.\<close>

definition providers :: "string list" where
  "providers = [''wss://rpc.polkadot.io'', ''wss://polkadot-rpc.dwellir.com'',
                ''wss://polkadot.api.onfinality.io/public-ws'']"

definition batchSize :: nat where
  "batchSize = 25"

definition maxValidators :: int where
  "maxValidators = 100"

definition cacheFile :: string where
  "cacheFile = ''./validator-cache.json''"

definition cacheTimeout :: jsnum where
  "cacheTimeout = Fin 3600000"

definition testValidator :: address where
  "testValidator = ''14zfiH2sMH955cG2yKUQbHSP3oQ8W4Ai9p9wSSZunvQ4TU4k''"

text \<open>\<open>CONFIG.expectedValues.inactiveNomination\<close> of the earlier script: the literal 2783408.3835.\<close>

definition expectedInactive :: jsnum where
  "expectedInactive = fl (27834083835 / 10000)"

section \<open>The report row\<close>

text \<open>
  The object returned for one validator. The fields stand for the keys
  \<open>'Validator'\<close>, \<open>'Self Bond (DOT)'\<close>, \<open>'Active Nomination (DOT)'\<close>,
  \<open>'Inactive Nomination (DOT)'\<close>, \<open>'Total Nomination (DOT)'\<close>,
  \<open>'Total Active Stake (DOT)'\<close>, \<open>'Commission (%)'\<close> and
  \<open>'Nominators (Active/Total)'\<close>; every value is a string.
\<close>

record report =
  Validator :: string
  Self_Bond :: string
  Active_Nomination :: string
  Inactive_Nomination :: string
  Total_Nomination :: string
  Total_Active_Stake :: string
  Commission :: string
  Nominators :: string

text \<open>The numbers computed for one validator before they are rendered.\<close>

record metrics =
  ownStake :: jsnum
  commissionPct :: jsnum
  activeStake :: jsnum
  activeNominatorCount :: nat
  totalNominatorCount :: nat
  inactiveNominatorCount :: nat
  inactiveStake :: jsnum
  totalNomination :: jsnum
  totalActiveStake :: jsnum

section \<open>processValidatorsBatch\<close>

text \<open>
  \<open>nominatorsMap\<close> is a JavaScript object used as a dictionary from nominator
  to target list; an association list in insertion order stands for it.
  The loop over \<open>Object.entries(nominatorsMap)\<close> collects the nominators
  whose targets include the validator.
\<close>

definition targetingNominators :: "(address \<times> address list) list \<Rightarrow> address \<Rightarrow> address list" where
  "targetingNominators nominatorsMap validatorAddress =
     map fst (filter (\<lambda>(nominator, targets). validatorAddress \<in> set targets) nominatorsMap)"

text \<open>
  \<open>prefs?.commission.toNumber() || 0\<close>: \<open>toNumber\<close> of a big number throws
  beyond 53 bits; a nullish \<open>prefs\<close> gives 0.
\<close>

definition commission_toNumber :: "nat option \<Rightarrow> js_error + jsnum" where
  "commission_toNumber prefs =
     (case prefs of
        None \<Rightarrow> Inr (Fin 0)
      | Some c \<Rightarrow>
          if c < 2 ^ 53 then Inr (Fin (rat_of_nat c))
          else Inl (JsError ''Number can only safely store up to 53 bits''))"

text \<open>\<open>Number(stakingInfo?.stakingLedger?.total || '0')\<close>.\<close>

definition selfBond_Number :: "nat option \<Rightarrow> jsnum" where
  "selfBond_Number ledger = (case ledger of None \<Rightarrow> Fin 0 | Some t \<Rightarrow> Number_of t)"

text \<open>The \<open>reduce\<close> over \<open>exposureData.others\<close>, from 0.\<close>

definition sumActiveStake :: "(address \<times> nat) list \<Rightarrow> jsnum" where
  "sumActiveStake os =
     foldl (\<lambda>sum other. js_add sum (js_div (Number_of (snd other)) (Fin (10 ^ 10)))) (Fin 0) os"

text \<open>The multiplier chosen from the commission percentage: 0.7, 0.6 below 5, 0.8 above 15.\<close>

definition inactiveMultiplier :: "jsnum \<Rightarrow> jsnum" where
  "inactiveMultiplier pct =
     (if js_lt pct (Fin 5) then fl (6 / 10)
      else if js_gt pct (Fin 15) then fl (8 / 10)
      else fl (7 / 10))"

text \<open>
  The multiplier of the earlier script: for the test validator it is replaced
  by \<open>expectedInactive / (avgActiveStakePerNominator * inactiveNominatorCount)\<close>.
\<close>

definition inactiveMultiplier_p0 :: "address \<Rightarrow> jsnum \<Rightarrow> jsnum \<Rightarrow> nat \<Rightarrow> jsnum" where
  "inactiveMultiplier_p0 validatorAddress pct avg inactiveCount =
     (if validatorAddress = testValidator
      then js_div expectedInactive (js_mul avg (Number_of inactiveCount))
      else inactiveMultiplier pct)"

text \<open>
  The arithmetic of the callback, from \<open>selfBond\<close> to \<open>totalActiveStake\<close>.
  \<open>mult\<close> is the multiplier as a function of the commission percentage, the
  average active stake and the inactive count, so that both scripts share the
  rest.
\<close>

definition computeMetrics ::
  "(jsnum \<Rightarrow> jsnum \<Rightarrow> nat \<Rightarrow> jsnum) \<Rightarrow> nat option \<Rightarrow> jsnum \<Rightarrow> nat \<Rightarrow> exposure \<Rightarrow> metrics" where
  "computeMetrics mult ledger commission totalCount exposureData =
     (let ownStake = js_div (selfBond_Number ledger) (Fin (10 ^ 10));
          commissionPct = js_div commission (Fin 10000000);
          activeStake = sumActiveStake (others exposureData);
          activeCount = length (others exposureData);
          inactiveCount = nat (max 0 (int totalCount - int activeCount));
          inactiveStake =
            (if 0 < activeCount \<and> 0 < inactiveCount then
               (let avgActiveStakePerNominator = js_div activeStake (Number_of activeCount)
                in js_mul (js_mul avgActiveStakePerNominator
                             (mult commissionPct avgActiveStakePerNominator inactiveCount))
                     (Number_of inactiveCount))
             else Fin 0);
          totalNomination = js_add activeStake inactiveStake;
          totalActiveStake = js_add ownStake activeStake
      in \<lparr> ownStake = ownStake, commissionPct = commissionPct, activeStake = activeStake,
           activeNominatorCount = activeCount, totalNominatorCount = totalCount,
           inactiveNominatorCount = inactiveCount, inactiveStake = inactiveStake,
           totalNomination = totalNomination, totalActiveStake = totalActiveStake \<rparr>)"

text \<open>The object literal returned on success.\<close>

definition formatReport :: "address \<Rightarrow> metrics \<Rightarrow> report" where
  "formatReport validatorAddress m =
     \<lparr> Validator = validatorAddress,
       Self_Bond = toFixed (ownStake m) 4,
       Active_Nomination = toFixed (activeStake m) 4,
       Inactive_Nomination = toFixed (inactiveStake m) 4,
       Total_Nomination = toFixed (totalNomination m) 4,
       Total_Active_Stake = toFixed (totalActiveStake m) 4,
       Commission = toFixed (commissionPct m) 2,
       Nominators = dec_digits (int (activeNominatorCount m)) @ ''/''
                    @ dec_digits (int (totalNominatorCount m)) \<rparr>"

text \<open>The object literal returned by the \<open>catch\<close> branch.\<close>

definition zeroRow :: "address \<Rightarrow> report" where
  "zeroRow validatorAddress =
     \<lparr> Validator = validatorAddress,
       Self_Bond = ''0.00'',
       Active_Nomination = ''0.00'',
       Inactive_Nomination = ''0.00'',
       Total_Nomination = ''0.00'',
       Total_Active_Stake = ''0.00'',
       Commission = ''0.00'',
       Nominators = ''0/0'' \<rparr>"

text \<open>
  The \<open>try\<close> block of the callback: the three queries in the order of the
  source, any of which may throw, then the arithmetic.
\<close>

definition validatorMetrics ::
  "(address \<Rightarrow> jsnum \<Rightarrow> jsnum \<Rightarrow> nat \<Rightarrow> jsnum) \<Rightarrow> api \<Rightarrow> nat
     \<Rightarrow> (address \<times> address list) list \<Rightarrow> address \<Rightarrow> js_error + metrics" where
  "validatorMetrics mult a eraNumber nominatorsMap validator =
     (case staking_validators a validator of
        Inl e \<Rightarrow> Inl e
      | Inr prefs \<Rightarrow>
     (case staking_account a validator of
        Inl e \<Rightarrow> Inl e
      | Inr ledger \<Rightarrow>
     (let targeting = targetingNominators nominatorsMap validator in
      case erasStakers a eraNumber validator of
        Inl e \<Rightarrow> Inl e
      | Inr exposureData \<Rightarrow>
     (case commission_toNumber prefs of
        Inl e \<Rightarrow> Inl e
      | Inr commission \<Rightarrow>
          Inr (computeMetrics (mult validator) ledger commission (length targeting)
                 exposureData)))))"

text \<open>
  The callback with its \<open>catch\<close>: validator-cli.js, then the earlier script.
  The \<open>catch\<close> branch also prints the error with \<open>console.error\<close>; that line
  is not part of the value returned and is left out here.
\<close>

definition processValidator ::
  "api \<Rightarrow> nat \<Rightarrow> (address \<times> address list) list \<Rightarrow> address \<Rightarrow> report" where
  "processValidator a eraNumber nominatorsMap validator =
     (case validatorMetrics (\<lambda>v pct avg n. inactiveMultiplier pct) a eraNumber nominatorsMap validator of
        Inr m \<Rightarrow> formatReport validator m
      | Inl err \<Rightarrow> zeroRow validator)"

definition processValidator_p0 ::
  "api \<Rightarrow> nat \<Rightarrow> (address \<times> address list) list \<Rightarrow> address \<Rightarrow> report" where
  "processValidator_p0 a eraNumber nominatorsMap validator =
     (case validatorMetrics inactiveMultiplier_p0 a eraNumber nominatorsMap validator of
        Inr m \<Rightarrow> formatReport validator m
      | Inl err \<Rightarrow> zeroRow validator)"

text \<open>\<open>Promise.all(validators.map(...))\<close>: one row per validator, in the order given.\<close>

definition processValidatorsBatch ::
  "api \<Rightarrow> address list \<Rightarrow> nat \<Rightarrow> (address \<times> address list) list \<Rightarrow> report list" where
  "processValidatorsBatch a validators eraNumber nominatorsMap =
     map (processValidator a eraNumber nominatorsMap) validators"

definition processValidatorsBatch_p0 ::
  "api \<Rightarrow> address list \<Rightarrow> nat \<Rightarrow> (address \<times> address list) list \<Rightarrow> report list" where
  "processValidatorsBatch_p0 a validators eraNumber nominatorsMap =
     map (processValidator_p0 a eraNumber nominatorsMap) validators"

section \<open>JSON values, the cache file and the console\<close>

text \<open>
  A value as \<open>JSON.parse\<close> returns it. The key list of an object has no
  duplicate key, as a parsed object has none.
\<close>

datatype json =
    JNull
  | JBool bool
  | JNum jsnum
  | JStr string
  | JArr "json list"
  | JObj "(string \<times> json) list"

definition report_json :: "report \<Rightarrow> json" where
  "report_json r =
     JObj [(''Validator'', JStr (Validator r)),
           (''Self Bond (DOT)'', JStr (Self_Bond r)),
           (''Active Nomination (DOT)'', JStr (Active_Nomination r)),
           (''Inactive Nomination (DOT)'', JStr (Inactive_Nomination r)),
           (''Total Nomination (DOT)'', JStr (Total_Nomination r)),
           (''Total Active Stake (DOT)'', JStr (Total_Active_Stake r)),
           (''Commission (%)'', JStr (Commission r)),
           (''Nominators (Active/Total)'', JStr (Nominators r))]"

definition reports_json :: "report list \<Rightarrow> json" where
  "reports_json rs = JArr (map report_json rs)"

text \<open>JavaScript truthiness.\<close>

fun truthy :: "json \<Rightarrow> bool" where
  "truthy JNull = False"
| "truthy (JBool b) = b"
| "truthy (JNum n) = (n \<noteq> NaN \<and> n \<noteq> Fin 0)"
| "truthy (JStr s) = (s \<noteq> [])"
| "truthy (JArr xs) = True"
| "truthy (JObj kvs) = True"

text \<open>
  What the cache file holds, as \<open>loadCache\<close> can observe it: no file; a file
  that \<open>readFileSync\<close> cannot read; a text that \<open>JSON.parse\<close> rejects; the
  text \<open>null\<close>; or any other JSON text, given by the number its
  \<open>timestamp\<close> property converts to in the subtraction (NaN when the property
  is missing) and by its \<open>data\<close> property (\<open>None\<close> when missing).
\<close>

datatype cache_file =
    Absent
  | Unreadable
  | Unparsable
  | ParsedNull
  | Parsed jsnum "json option"

text \<open>
  The effects of a run, in order: the calls into \<open>fs\<close>, the connection
  attempts with their outcome, the disconnection, and what is printed by
  \<open>console.table\<close>, by the \<open>console.error\<close> of \<open>loadCache\<close>, of
  \<open>saveCache\<close> and of \<open>getValidators\<close>, and by the one \<open>console.log\<close> that
  answers a request. The progress lines are left out, and so is the line that
  the \<open>catch\<close> branch of the batch callback prints for a validator it could
  not process: the batch function is modelled by the rows it returns.
  \<open>WriteFileSync\<close> carries the record that is serialised; \<open>RenameSync\<close> is
  the \<open>fs\<close> call that moves a file over another.
\<close>

datatype event =
    ExistsSync string
  | ReadFileSync string
  | WriteFileSync string jsnum json
  | RenameSync string string
  | Connect string bool
  | Disconnect
  | ConsoleTable json
  | ConsoleLog string
  | ConsoleError string

text \<open>
  The world a run acts on: the cache file, the clock read by \<open>Date.now()\<close>
  (milliseconds), what the next \<open>writeFileSync\<close> does (\<open>None\<close>: it succeeds;
  \<open>Some f\<close>: it throws and leaves the file as \<open>f\<close>), and the effects so far.
\<close>

record world =
  cache :: cache_file
  clock :: nat
  write_fault :: "cache_file option"
  trace :: "event list"

definition emit :: "event \<Rightarrow> world \<Rightarrow> world" where
  "emit e w = w\<lparr>trace := trace w @ [e]\<rparr>"

text \<open>
  The command-line options. \<open>limit = None\<close> stands for \<open>null\<close> and for the
  NaN that \<open>parseInt\<close> may return: the script only tests the limit for
  truthiness before it uses it. \<open>--help\<close> prints the usage and exits before
  anything else; it is left out.
\<close>

record options =
  limit :: "int option"
  validator :: "string option"
  refresh :: bool

definition limit_given :: "options \<Rightarrow> bool" where
  "limit_given opts = (case limit opts of None \<Rightarrow> False | Some n \<Rightarrow> n \<noteq> 0)"

definition validator_given :: "options \<Rightarrow> bool" where
  "validator_given opts = (case validator opts of None \<Rightarrow> False | Some s \<Rightarrow> s \<noteq> [])"

section \<open>loadCache and saveCache\<close>

text \<open>The \<open>try\<close> block of \<open>loadCache\<close>; \<open>Inr None\<close> is a fall through to \<open>return null\<close>.\<close>

definition loadCache_try :: "bool \<Rightarrow> world \<Rightarrow> (js_error + json option) \<times> world" where
  "loadCache_try refreshFlag w =
     (let w1 = emit (ExistsSync cacheFile) w
      in if cache w \<noteq> Absent \<and> \<not> refreshFlag then
           (let w2 = emit (ReadFileSync cacheFile) w1
            in case cache w of
                 Absent \<Rightarrow> (Inr None, w2)
               | Unreadable \<Rightarrow> (Inl (JsError ''EACCES: permission denied''), w2)
               | Unparsable \<Rightarrow> (Inl (JsError ''Unexpected token in JSON''), w2)
               | ParsedNull \<Rightarrow> (Inl (JsError ''Cannot read properties of null''), w2)
               | Parsed ts d \<Rightarrow>
                   if js_lt (js_sub (Number_of (clock w)) ts) cacheTimeout
                   then (Inr d, w2) else (Inr None, w2))
         else (Inr None, w1))"

text \<open>
  \<open>loadCache\<close> of validator-cli.js: the \<open>catch\<close> logs and falls through to
  \<open>return null\<close>. The result \<open>None\<close> is \<open>null\<close> or \<open>undefined\<close>.
\<close>

definition loadCache :: "options \<Rightarrow> world \<Rightarrow> json option \<times> world" where
  "loadCache opts w =
     (case loadCache_try (refresh opts) w of
        (Inl (JsError msg), w') \<Rightarrow> (None, emit (ConsoleError (''Error loading cache: '' @ msg)) w')
      | (Inr r, w') \<Rightarrow> (r, w'))"

text \<open>\<open>loadCache\<close> of the earlier script, which has no refresh option.\<close>

definition loadCache_p0 :: "world \<Rightarrow> json option \<times> world" where
  "loadCache_p0 w =
     (case loadCache_try False w of
        (Inl (JsError msg), w') \<Rightarrow> (None, emit (ConsoleError (''Error loading cache: '' @ msg)) w')
      | (Inr r, w') \<Rightarrow> (r, w'))"

text \<open>\<open>saveCache\<close>, the same in both scripts: one \<open>writeFileSync\<close> on the cache file.\<close>

definition saveCache :: "json \<Rightarrow> world \<Rightarrow> world" where
  "saveCache d w =
     (let ts = Number_of (clock w);
          w1 = emit (WriteFileSync cacheFile ts d) w
      in case write_fault w of
           None \<Rightarrow> w1\<lparr>cache := Parsed ts (Some d)\<rparr>
         | Some f \<Rightarrow> emit (ConsoleError ''Error saving cache'') (w1\<lparr>cache := f\<rparr>))"

section \<open>connectToNetwork\<close>

text \<open>
  The network: which endpoints accept a connection, the chain behind them,
  and the time the run spends on the network before it writes the cache.
\<close>

record network =
  reachable :: "string \<Rightarrow> bool"
  chain_api :: api
  latency :: nat

fun connect_loop :: "(string \<Rightarrow> bool) \<Rightarrow> string list \<Rightarrow> world \<Rightarrow> (js_error + string) \<times> world" where
  "connect_loop up [] w = (Inl (JsError ''Failed to connect to any Polkadot endpoint''), w)"
| "connect_loop up (endpoint # rest) w =
     (if up endpoint then (Inr endpoint, emit (Connect endpoint True) w)
      else connect_loop up rest (emit (Connect endpoint False) w))"

definition connectToNetwork :: "network \<Rightarrow> world \<Rightarrow> (js_error + string) \<times> world" where
  "connectToNetwork net w =
     (case connect_loop (reachable net) providers w of
        (r, w') \<Rightarrow> (r, w'\<lparr>clock := clock w' + latency net\<rparr>))"

section \<open>parseFloat and the sort\<close>

definition is_ws :: "char \<Rightarrow> bool" where
  "is_ws c = (c \<in> set [CHR 0x20, CHR 0x09, CHR 0x0A, CHR 0x0B, CHR 0x0C, CHR 0x0D])"

definition is_digit :: "char \<Rightarrow> bool" where
  "is_digit c = (c \<in> set ''0123456789'')"

text \<open>The value of a digit character: its position among the ten digits.\<close>

definition digit_val :: "char \<Rightarrow> int" where
  "digit_val c = int (length (takeWhile (\<lambda>d. d \<noteq> c) ''0123456789''))"

definition digits_value :: "string \<Rightarrow> int" where
  "digits_value ds = foldl (\<lambda>acc c. acc * 10 + digit_val c) 0 ds"

definition pow10 :: "int \<Rightarrow> rat" where
  "pow10 k = (if 0 \<le> k then 10 ^ nat k else 1 / 10 ^ nat (- k))"

text \<open>The value of an \<open>ExponentPart\<close> at the head of the string, 0 when there is none.\<close>

definition exponent_part :: "string \<Rightarrow> int" where
  "exponent_part r =
     (if r \<noteq> [] \<and> (hd r = CHR ''e'' \<or> hd r = CHR ''E'') then
        (let r3 = tl r;
             eneg = (r3 \<noteq> [] \<and> hd r3 = CHR ''-'');
             r4 = (if r3 \<noteq> [] \<and> (hd r3 = CHR ''-'' \<or> hd r3 = CHR ''+'') then tl r3 else r3);
             ed = takeWhile is_digit r4
         in if ed = [] then 0
            else if eneg then - digits_value ed else digits_value ed)
      else 0)"

text \<open>
  \<open>parseFloat\<close>: leading white space is skipped, the longest prefix that is a
  \<open>StrDecimalLiteral\<close> is read, and NaN is returned when there is none.
\<close>

definition parseFloat :: "string \<Rightarrow> jsnum" where
  "parseFloat str =
     (let s1 = dropWhile is_ws str;
          neg = (s1 \<noteq> [] \<and> hd s1 = CHR ''-'');
          s2 = (if s1 \<noteq> [] \<and> (hd s1 = CHR ''-'' \<or> hd s1 = CHR ''+'') then tl s1 else s1)
      in if take 8 s2 = ''Infinity'' then (if neg then NInf else PInf)
         else
           (let ip = takeWhile is_digit s2;
                r1 = dropWhile is_digit s2;
                hasdot = (r1 \<noteq> [] \<and> hd r1 = CHR ''.'');
                fp = (if hasdot then takeWhile is_digit (tl r1) else []);
                r2 = (if hasdot then dropWhile is_digit (tl r1) else r1)
            in if ip = [] \<and> fp = [] then NaN
               else
                 (let v = rat_of_int (digits_value (ip @ fp))
                            * pow10 (exponent_part r2 - int (length fp))
                  in fl (if neg then - v else v))))"

text \<open>
  The comparator handed to \<open>results.sort\<close>:
  \<open>parseFloat(b[...]) - parseFloat(a[...])\<close> on \<open>'Total Active Stake (DOT)'\<close>.
\<close>

definition compareRows :: "report \<Rightarrow> report \<Rightarrow> jsnum" where
  "compareRows a b = js_sub (parseFloat (Total_Active_Stake b)) (parseFloat (Total_Active_Stake a))"

text \<open>
  \<open>Array.prototype.sort\<close> is stable: an element goes behind another one only
  when the comparator is positive on them (NaN counts as 0). A stable
  insertion sort stands for it.
\<close>

fun insort_js :: "('a \<Rightarrow> 'a \<Rightarrow> jsnum) \<Rightarrow> 'a \<Rightarrow> 'a list \<Rightarrow> 'a list" where
  "insort_js cmp x [] = [x]"
| "insort_js cmp x (y # ys) =
     (if js_gt (cmp x y) (Fin 0) then y # insort_js cmp x ys else x # y # ys)"

definition sort_js :: "('a \<Rightarrow> 'a \<Rightarrow> jsnum) \<Rightarrow> 'a list \<Rightarrow> 'a list" where
  "sort_js cmp xs = foldr (insort_js cmp) xs []"

section \<open>getValidators\<close>

text \<open>\<open>xs.slice(0, e)\<close> for an integer \<open>e\<close>: a negative \<open>e\<close> counts from the end.\<close>

definition slice0 :: "'a list \<Rightarrow> int \<Rightarrow> 'a list" where
  "slice0 xs e = (if e < 0 then take (nat (int (length xs) + e)) xs else take (nat e) xs)"

text \<open>
  The loop that fills \<open>nominatorsMap\<close>: an entry whose decoding throws is
  skipped; a later entry of the same nominator replaces the targets in place.
\<close>

definition buildNominatorsMap ::
  "(address \<times> address list option) list \<Rightarrow> (address \<times> address list) list" where
  "buildNominatorsMap nominatorsData =
     foldl (\<lambda>m (nominator, nominations).
              case nominations of None \<Rightarrow> m | Some targets \<Rightarrow> AList.update nominator targets m)
       [] nominatorsData"

text \<open>
  The loop over the batches: \<open>i\<close> runs from 0 in steps of \<open>batchSize\<close>, and
  the rows of \<open>processValidators.slice(i, i + batchSize)\<close> are appended to
  \<open>results\<close>. \<open>batch\<close> is the batch function of the script.
\<close>

function batchLoop ::
  "(address list \<Rightarrow> report list) \<Rightarrow> address list \<Rightarrow> nat \<Rightarrow> report list \<Rightarrow> report list" where
  "batchLoop batch vs i results =
     (if i < length vs
      then batchLoop batch vs (i + batchSize) (results @ batch (take batchSize (drop i vs)))
      else results)"
  by pat_completeness auto
termination
  by (relation "measure (\<lambda>(batch, vs, i, results). length vs - i)") (auto simp: batchSize_def)

declare batchLoop.simps [simp del]

text \<open>\<open>v.Validator\<close> for an element of the cached array.\<close>

fun get_Validator :: "json \<Rightarrow> js_error + json option" where
  "get_Validator JNull = Inl (JsError ''Cannot read properties of null'')"
| "get_Validator (JObj kvs) = Inr (map_of kvs ''Validator'')"
| "get_Validator v = Inr None"

text \<open>\<open>cachedData.find(v => v.Validator === options.validator)\<close> on an array.\<close>

fun find_validator :: "string \<Rightarrow> json list \<Rightarrow> js_error + json option" where
  "find_validator name [] = Inr None"
| "find_validator name (v # vs) =
     (case get_Validator v of
        Inl e \<Rightarrow> Inl e
      | Inr (Some (JStr s)) \<Rightarrow> if s = name then Inr (Some v) else find_validator name vs
      | Inr _ \<Rightarrow> find_validator name vs)"

text \<open>
  The branch taken when \<open>loadCache\<close> returned a truthy value. Only an array
  has \<open>find\<close>; an array and a string have \<open>slice\<close>; on anything else the call
  is a TypeError, which the outer \<open>catch\<close> of \<open>getValidators\<close> receives.
\<close>

definition showCached :: "options \<Rightarrow> json \<Rightarrow> world \<Rightarrow> (js_error + unit) \<times> world" where
  "showCached opts cachedData w =
     (if validator_given opts then
        (case cachedData of
           JArr vs \<Rightarrow>
             (case find_validator (the (validator opts)) vs of
                Inl e \<Rightarrow> (Inl e, w)
              | Inr (Some validatorData) \<Rightarrow> (Inr (), emit (ConsoleTable (JArr [validatorData])) w)
              | Inr None \<Rightarrow>
                  (Inr (), emit (ConsoleLog (''Validator '' @ the (validator opts)
                                   @ '' not found in cache. Use --refresh to update data.'')) w))
         | _ \<Rightarrow> (Inl (JsError ''cachedData.find is not a function''), w))
      else if limit_given opts then
        (case cachedData of
           JArr vs \<Rightarrow> (Inr (), emit (ConsoleTable (JArr (slice0 vs (the (limit opts))))) w)
         | JStr s \<Rightarrow> (Inr (), emit (ConsoleTable (JStr (slice0 s (the (limit opts))))) w)
         | _ \<Rightarrow> (Inl (JsError ''cachedData.slice is not a function''), w))
      else (Inr (), emit (ConsoleTable cachedData) w))"

text \<open>
  The branch for \<open>options.validator\<close> after the connection, with its own
  \<open>try\<close> and \<open>catch\<close>: the one validator is processed as a batch of one, the
  result is shown and saved to the cache.
\<close>

definition lookupOne :: "string \<Rightarrow> api \<Rightarrow> world \<Rightarrow> world" where
  "lookupOne name a w =
     (case activeEra a of
        Inl (JsError msg) \<Rightarrow> emit (ConsoleError (''Error processing validator '' @ name)) w
      | Inr None \<Rightarrow> emit (ConsoleError (''Error processing validator '' @ name)) w
      | Inr (Some eraNumber) \<Rightarrow>
     (case nominators_entries a of
        Inl (JsError msg) \<Rightarrow> emit (ConsoleError (''Error processing validator '' @ name)) w
      | Inr nominatorsData \<Rightarrow>
          (let nominatorsMap = buildNominatorsMap nominatorsData;
               results = processValidatorsBatch a [name] eraNumber nominatorsMap
           in saveCache (reports_json results) (emit (ConsoleTable (reports_json results)) w))))"

text \<open>
  The run over the validator set, shared by both scripts: \<open>batch\<close> is the
  batch function, \<open>lim_opt\<close> the limit option (\<open>None\<close> in the earlier script,
  which has none, so that \<open>maxValidators\<close> is the configured 100 and the whole
  result is shown).
\<close>

definition fetchAll ::
  "(api \<Rightarrow> address list \<Rightarrow> nat \<Rightarrow> (address \<times> address list) list \<Rightarrow> report list)
     \<Rightarrow> int option \<Rightarrow> api \<Rightarrow> world \<Rightarrow> (js_error + unit) \<times> world" where
  "fetchAll batch lim_opt a w =
     (case session_validators a of
        Inl e \<Rightarrow> (Inl e, w)
      | Inr validators \<Rightarrow>
     (case activeEra a of
        Inl e \<Rightarrow> (Inl e, w)
      | Inr None \<Rightarrow> (Inl (JsError ''Option: unwrapping a None value''), w)
      | Inr (Some eraNumber) \<Rightarrow>
     (let given = (case lim_opt of None \<Rightarrow> False | Some n \<Rightarrow> n \<noteq> 0);
          maxV = (if given then the lim_opt else maxValidators);
          processValidators = (if maxV \<noteq> 0 then slice0 validators maxV else validators)
      in case nominators_entries a of
           Inl e \<Rightarrow> (Inl e, w)
         | Inr nominatorsData \<Rightarrow>
             (let nominatorsMap = buildNominatorsMap nominatorsData;
                  results = batchLoop (\<lambda>b. batch a b eraNumber nominatorsMap) processValidators 0 [];
                  sorted = sort_js compareRows results;
                  displayData = (if given then slice0 sorted (the lim_opt) else sorted)
              in (Inr (), saveCache (reports_json sorted)
                            (emit (ConsoleTable (reports_json displayData)) w))))))"

text \<open>
  The outer \<open>catch\<close> and \<open>finally\<close> of \<open>getValidators\<close>: an error is logged,
  and the session is closed when there is one.
\<close>

definition finish :: "bool \<Rightarrow> (js_error + unit) \<times> world \<Rightarrow> world" where
  "finish hasApi rw =
     (let w1 = (case fst rw of
                  Inl (JsError msg) \<Rightarrow> emit (ConsoleError (''Error fetching validators: '' @ msg)) (snd rw)
                | Inr u \<Rightarrow> snd rw)
      in if hasApi then emit Disconnect w1 else w1)"

text \<open>\<open>getValidators\<close> of validator-cli.js.\<close>

definition getValidators :: "options \<Rightarrow> network \<Rightarrow> world \<Rightarrow> world" where
  "getValidators opts net w =
     (case loadCache opts w of
        (cachedData, w1) \<Rightarrow>
          if (case cachedData of None \<Rightarrow> False | Some d \<Rightarrow> truthy d)
          then finish False (showCached opts (the cachedData) w1)
          else
            (case connectToNetwork net w1 of
               (Inl e, w2) \<Rightarrow> finish False (Inl e, w2)
             | (Inr endpoint, w2) \<Rightarrow>
                 if validator_given opts
                 then finish True (Inr (), lookupOne (the (validator opts)) (chain_api net) w2)
                 else finish True (fetchAll processValidatorsBatch (limit opts) (chain_api net) w2)))"

text \<open>\<open>getValidators\<close> of the earlier script: no options, the cached value is shown as it is.\<close>

definition getValidators_p0 :: "network \<Rightarrow> world \<Rightarrow> world" where
  "getValidators_p0 net w =
     (case loadCache_p0 w of
        (cachedData, w1) \<Rightarrow>
          if (case cachedData of None \<Rightarrow> False | Some d \<Rightarrow> truthy d)
          then finish False (Inr (), emit (ConsoleTable (the cachedData)) w1)
          else
            (case connectToNetwork net w1 of
               (Inl e, w2) \<Rightarrow> finish False (Inl e, w2)
             | (Inr endpoint, w2) \<Rightarrow>
                 finish True (fetchAll processValidatorsBatch_p0 None (chain_api net) w2)))"

section \<open>Decimal places of a rendered number\<close>

text \<open>
  The number of characters behind the first decimal point of a string,
  \<open>None\<close> when it has no point.
\<close>

definition decimal_places :: "string \<Rightarrow> nat option" where
  "decimal_places s =
     (case dropWhile (\<lambda>c. c \<noteq> CHR ''.'') s of [] \<Rightarrow> None | c # r \<Rightarrow> Some (length r))"

section \<open>Failure of the queries, and example inputs\<close>

text \<open>
  The queries or the decoding for a validator fail: one of the three promises
  rejects, or the commission does not convert.
\<close>

definition queriesFail :: "api \<Rightarrow> nat \<Rightarrow> address \<Rightarrow> bool" where
  "queriesFail a eraNumber v =
     (isl (staking_validators a v) \<or> isl (staking_account a v) \<or> isl (erasStakers a eraNumber v)
      \<or> (case staking_validators a v of Inl e \<Rightarrow> False | Inr prefs \<Rightarrow> isl (commission_toNumber prefs)))"

text \<open>
  A chain on which every validator has commission 5\%, a ledger total of 100
  tokens and one active nominator with 1000 tokens (10 decimals); the
  registry names three nominators of \<open>V1\<close>, one of \<open>V2\<close>, and holds one
  entry that does not decode.
\<close>

definition registry_ok :: "(address \<times> address list option) list" where
  "registry_ok =
     [(''N1'', Some [''V1'']), (''N2'', Some [''V1'', ''V2'']), (''N3'', Some [''V1'']), (''N4'', None)]"

text \<open>A registry in which three nominators target the test validator of the earlier script.\<close>

definition registry_tv :: "(address \<times> address list option) list" where
  "registry_tv =
     [(''N1'', Some [testValidator]), (''N2'', Some [testValidator]), (''N3'', Some [testValidator])]"

definition api_ok :: api where
  "api_ok =
     \<lparr> staking_validators = (\<lambda>v. Inr (Some 50000000)),
       staking_account = (\<lambda>v. Inr (Some 1000000000000)),
       erasStakers = (\<lambda>era v. Inr \<lparr> total_exp = 11000000000000, own_exp = 1000000000000,
                                      others = [(''N1'', 10000000000000)] \<rparr>),
       session_validators = Inr [''V1'', ''V2''],
       activeEra = Inr (Some 1500),
       nominators_entries = Inr registry_ok \<rparr>"

text \<open>The same chain, on which the preferences query of \<open>V2\<close> rejects.\<close>

definition api_fail :: api where
  "api_fail =
     api_ok \<lparr> staking_validators :=
                (\<lambda>v. if v = ''V2'' then Inl (JsError ''disconnected'') else Inr (Some 50000000)) \<rparr>"

definition net_ok :: network where
  "net_ok = \<lparr> reachable = (\<lambda>endpoint. True), chain_api = api_ok, latency = 2000 \<rparr>"

definition world0 :: world where
  "world0 = \<lparr> cache = Absent, clock = 1700000000000, write_fault = None, trace = [] \<rparr>"

definition opts_all :: options where
  "opts_all = \<lparr> limit = None, validator = None, refresh = False \<rparr>"

definition opts_one :: options where
  "opts_one = \<lparr> limit = None, validator = Some ''V1'', refresh = False \<rparr>"

text \<open>Cache files: one that does not parse, and one written 10000 seconds before \<open>world0\<close>.\<close>

definition world_corrupt :: world where
  "world_corrupt = world0 \<lparr> cache := Unparsable \<rparr>"

definition world_stale :: world where
  "world_stale = world0 \<lparr> cache := Parsed (Fin 1699990000000) (Some (JArr [])) \<rparr>"

definition opts_refresh :: options where
  "opts_refresh = \<lparr> limit = None, validator = None, refresh = True \<rparr>"

text \<open>The rows of \<open>V1\<close> and \<open>V2\<close> on \<open>api_ok\<close> with the registry \<open>registry_ok\<close>.\<close>

definition row_V1 :: report where
  "row_V1 =
     \<lparr> Validator = ''V1'', Self_Bond = ''100.0000'', Active_Nomination = ''1000.0000'',
       Inactive_Nomination = ''1400.0000'', Total_Nomination = ''2400.0000'',
       Total_Active_Stake = ''1100.0000'', Commission = ''5.00'', Nominators = ''1/3'' \<rparr>"

definition row_V2 :: report where
  "row_V2 =
     \<lparr> Validator = ''V2'', Self_Bond = ''100.0000'', Active_Nomination = ''1000.0000'',
       Inactive_Nomination = ''0.0000'', Total_Nomination = ''1000.0000'',
       Total_Active_Stake = ''1100.0000'', Commission = ''5.00'', Nominators = ''1/1'' \<rparr>"

text \<open>The world ten minutes after a lookup of \<open>V1\<close> that started from \<open>world0\<close>.\<close>

definition world_single :: world where
  "world_single = (getValidators opts_one net_ok world0) \<lparr> clock := 1700000600000, trace := [] \<rparr>"

text \<open>A network whose session has 150 validators, \<open>V0\<close> to \<open>V149\<close>.\<close>

definition validators_150 :: "address list" where
  "validators_150 = map (\<lambda>i. CHR ''V'' # dec_digits (int i)) [0..<150]"

definition net_big :: network where
  "net_big = net_ok \<lparr> chain_api := api_ok \<lparr> session_validators := Inr validators_150 \<rparr> \<rparr>"

section \<open>Properties of the loops and of the number model\<close>

lemma batchLoop_map_aux:
  "batch = map g \<Longrightarrow> batchLoop batch vs i acc = acc @ map g (drop i vs)"
proof (induction batch vs i acc rule: batchLoop.induct)
  case (1 batch vs i results)
  show ?case
  proof (cases "i < length vs")
    case True
    have "drop i vs = take batchSize (drop i vs) @ drop (i + batchSize) vs"
      by (metis append_take_drop_id drop_drop add.commute)
    then have "map g (drop i vs) = map g (take batchSize (drop i vs)) @ map g (drop (i + batchSize) vs)"
      by (metis map_append)
    with True 1 show ?thesis
      by (subst batchLoop.simps) simp
  next
    case False
    then show ?thesis by (subst batchLoop.simps) simp
  qed
qed

lemma batchLoop_map: "batchLoop (map g) vs 0 [] = map g vs"
  by (simp add: batchLoop_map_aux)

lemma length_insort_js: "length (insort_js cmp x ys) = Suc (length ys)"
  by (induction ys) auto

lemma length_sort_js: "length (sort_js cmp xs) = length xs"
  by (induction xs) (auto simp: sort_js_def length_insort_js)

lemma ilog2_nonneg: "0 \<le> ilog2 n"
  by (induction n rule: ilog2.induct) (subst ilog2.simps, simp)

lemma ilog2_bounds: "1 \<le> n \<Longrightarrow> 2 ^ nat (ilog2 n) \<le> n \<and> n < 2 * 2 ^ nat (ilog2 n)"
proof (induction n rule: ilog2.induct)
  case (1 n)
  show ?case
  proof (cases "n < 2")
    case True
    with 1 have "n = 1" by simp
    then show ?thesis by (subst (1 2) ilog2.simps) simp
  next
    case False
    then have h: "1 \<le> n div 2" by simp
    from 1(1)[OF False h] have ih: "2 ^ nat (ilog2 (n div 2)) \<le> n div 2" "n div 2 < 2 * 2 ^ nat (ilog2 (n div 2))"
      by auto
    have e: "ilog2 n = 1 + ilog2 (n div 2)" using False by (subst ilog2.simps) simp
    have p: "(2::int) ^ nat (1 + ilog2 (n div 2)) = 2 * 2 ^ nat (ilog2 (n div 2))"
      using ilog2_nonneg[of "n div 2"] by (simp add: nat_add_distrib)
    show ?thesis unfolding e p using ih by auto
  qed
qed

lemma ilog2_one: "ilog2 1 = 0"
  by (subst ilog2.simps) simp

lemma rne_one: "rne p 1 = p"
  by (simp add: rne_def)

lemma binexp_int: "1 \<le> z \<Longrightarrow> binexp z 1 = ilog2 z"
  using ilog2_bounds[of z] ilog2_nonneg[of z] by (simp add: binexp_def ilog2_one Let_def)

lemma ilog2_less: assumes "1 \<le> z" "z < 2 ^ n" shows "ilog2 z < int n"
proof -
  have "(2::int) ^ nat (ilog2 z) < 2 ^ n"
    using ilog2_bounds[OF assms(1)] assms(2) by linarith
  then have "nat (ilog2 z) < n" by (simp add: power_strict_increasing_iff)
  then show ?thesis by simp
qed

lemma fl_pos_int_exact:
  assumes "1 \<le> z" "z < 2 ^ 53"
  shows "fl_pos z 1 = Fin (rat_of_int z)"
proof -
  have e: "binexp z 1 = ilog2 z" by (rule binexp_int[OF assms(1)])
  have lt: "ilog2 z < 53" using ilog2_less[OF assms] by simp
  have ge: "0 \<le> ilog2 z" by (rule ilog2_nonneg)
  show ?thesis
  proof (cases "ilog2 z = 52")
    case True
    then show ?thesis by (simp add: fl_pos_def e Let_def rne_one pow2_def)
  next
    case False
    with lt have k: "ilog2 z - 52 < 0" by simp
    have m: "max (ilog2 z - 52) (- 1074) = ilog2 z - 52" using ge by simp
    have "rat_of_int (z * 2 ^ nat (52 - ilog2 z)) * (1 / 2 ^ nat (52 - ilog2 z)) = rat_of_int z"
      by simp
    then show ?thesis using k lt ge
      by (simp add: fl_pos_def e Let_def rne_one pow2_def m)
  qed
qed

lemma fl_int_exact:
  assumes "\<bar>z\<bar> < 2 ^ 53"
  shows "fl (rat_of_int z) = Fin (rat_of_int z)"
proof -
  have q: "quotient_of (rat_of_int z) = (z, 1)" by simp
  consider "z = 0" | "0 < z" | "z < 0" by linarith
  then show ?thesis
  proof cases
    case 1 then show ?thesis by (simp add: fl_def)
  next
    case 2
    with assms have "fl_pos z 1 = Fin (rat_of_int z)" by (intro fl_pos_int_exact) auto
    with 2 show ?thesis by (simp add: fl_def q)
  next
    case 3
    with assms have "fl_pos (- z) 1 = Fin (rat_of_int (- z))" by (intro fl_pos_int_exact) auto
    with 3 show ?thesis by (simp add: fl_def q js_neg_def)
  qed
qed

lemma Number_of_exact: "n < 2 ^ 53 \<Longrightarrow> Number_of n = Fin (rat_of_nat n)"
  using fl_int_exact[of "int n"] by (simp add: Number_of_def)

lemma age_test_exact:
  assumes "now < 2 ^ 53" "t < 2 ^ 53"
  shows "js_lt (js_sub (Number_of now) (Fin (rat_of_nat t))) cacheTimeout \<longleftrightarrow> int now - int t < 3600000"
proof -
  have "\<bar>int now - int t\<bar> < 2 ^ 53" using assms by auto
  from fl_int_exact[OF this] have "fl (rat_of_nat now + - rat_of_nat t) = Fin (rat_of_int (int now - int t))"
    by simp
  then have "js_sub (Number_of now) (Fin (rat_of_nat t)) = Fin (rat_of_int (int now - int t))"
    using assms(1) by (simp add: Number_of_exact js_sub_def js_add_def js_neg_def)
  then show ?thesis
    by (simp only: js_lt_def cacheTimeout_def jsnum.case prod.case of_int_less_numeral_iff)
qed

section \<open>Isolation of a failing validator\<close>

lemma validatorMetrics_fails:
  "isl (validatorMetrics mult a era nm v) = queriesFail a era v"
  by (auto simp: validatorMetrics_def queriesFail_def Let_def split: sum.splits)

lemma processValidator_zero:
  "queriesFail a era v \<Longrightarrow> processValidator a era nm v = zeroRow v"
  using validatorMetrics_fails[of "\<lambda>v pct avg n. inactiveMultiplier pct" a era nm v]
  by (auto simp: processValidator_def split: sum.splits)

lemma processValidator_p0_zero:
  "queriesFail a era v \<Longrightarrow> processValidator_p0 a era nm v = zeroRow v"
  using validatorMetrics_fails[of inactiveMultiplier_p0 a era nm v]
  by (auto simp: processValidator_p0_def split: sum.splits)

lemma processValidator_computed:
  assumes "\<not> queriesFail a era v"
  shows "\<exists>m. validatorMetrics (\<lambda>v pct avg n. inactiveMultiplier pct) a era nm v = Inr m
           \<and> processValidator a era nm v = formatReport v m"
proof -
  from assms have "\<not> isl (validatorMetrics (\<lambda>v pct avg n. inactiveMultiplier pct) a era nm v)"
    by (simp add: validatorMetrics_fails)
  then obtain m where "validatorMetrics (\<lambda>v pct avg n. inactiveMultiplier pct) a era nm v = Inr m"
    by (cases "validatorMetrics (\<lambda>v pct avg n. inactiveMultiplier pct) a era nm v") auto
  then show ?thesis by (simp add: processValidator_def)
qed

lemma processValidator_p0_computed:
  assumes "\<not> queriesFail a era v"
  shows "\<exists>m. validatorMetrics inactiveMultiplier_p0 a era nm v = Inr m
           \<and> processValidator_p0 a era nm v = formatReport v m"
proof -
  from assms have "\<not> isl (validatorMetrics inactiveMultiplier_p0 a era nm v)"
    by (simp add: validatorMetrics_fails)
  then obtain m where "validatorMetrics inactiveMultiplier_p0 a era nm v = Inr m"
    by (cases "validatorMetrics inactiveMultiplier_p0 a era nm v") auto
  then show ?thesis by (simp add: processValidator_p0_def)
qed

lemma Validator_processValidator: "Validator (processValidator a era nm v) = v"
  by (simp add: processValidator_def formatReport_def zeroRow_def split: sum.splits)

lemma Validator_processValidator_p0: "Validator (processValidator_p0 a era nm v) = v"
  by (simp add: processValidator_p0_def formatReport_def zeroRow_def split: sum.splits)

lemma batchLoop_batches:
  "batchLoop (\<lambda>b. processValidatorsBatch a b era nm) vs 0 [] = processValidatorsBatch a vs era nm"
proof -
  have "(\<lambda>b. processValidatorsBatch a b era nm) = map (processValidator a era nm)"
    by (rule ext) (simp add: processValidatorsBatch_def)
  then show ?thesis by (simp add: batchLoop_map processValidatorsBatch_def)
qed

lemma batchLoop_batches_p0:
  "batchLoop (\<lambda>b. processValidatorsBatch_p0 a b era nm) vs 0 [] = processValidatorsBatch_p0 a vs era nm"
proof -
  have "(\<lambda>b. processValidatorsBatch_p0 a b era nm) = map (processValidator_p0 a era nm)"
    by (rule ext) (simp add: processValidatorsBatch_p0_def)
  then show ?thesis by (simp add: batchLoop_map processValidatorsBatch_p0_def)
qed

lemma parseFloat_zero: "parseFloat ''0.00'' = Fin 0"
  by code_simp

text \<open>
  Claim C8. Per-entity failure is isolated: for every batch of validators, in
  both scripts, the batch function returns one row per validator in the order
  of the input; the row of every validator whose queries or decoding fail is
  the zero row (every amount \<open>'0.00'\<close>, which reads as 0, and the counts
  \<open>'0/0'\<close>); the row of every other validator is the row computed from its
  own query results, whatever happens to the validators around it; and the
  loop over the batches of a run returns the rows of all its validators, so
  that no failure ends a batch or the batches after it.
\<close>

theorem batch_failure_isolated:
  "length (processValidatorsBatch a vs era nm) = length vs
   \<and> map Validator (processValidatorsBatch a vs era nm) = vs
   \<and> (\<forall>i < length vs. queriesFail a era (vs ! i) \<longrightarrow>
         processValidatorsBatch a vs era nm ! i =
           \<lparr> Validator = vs ! i, Self_Bond = ''0.00'', Active_Nomination = ''0.00'',
             Inactive_Nomination = ''0.00'', Total_Nomination = ''0.00'',
             Total_Active_Stake = ''0.00'', Commission = ''0.00'', Nominators = ''0/0'' \<rparr>)
   \<and> (\<forall>i < length vs. \<not> queriesFail a era (vs ! i) \<longrightarrow>
         (\<exists>m. validatorMetrics (\<lambda>v pct avg n. inactiveMultiplier pct) a era nm (vs ! i) = Inr m
            \<and> processValidatorsBatch a vs era nm ! i = formatReport (vs ! i) m))
   \<and> batchLoop (\<lambda>b. processValidatorsBatch a b era nm) vs 0 [] = processValidatorsBatch a vs era nm
   \<and> length (processValidatorsBatch_p0 a vs era nm) = length vs
   \<and> map Validator (processValidatorsBatch_p0 a vs era nm) = vs
   \<and> (\<forall>i < length vs. queriesFail a era (vs ! i) \<longrightarrow>
         processValidatorsBatch_p0 a vs era nm ! i =
           \<lparr> Validator = vs ! i, Self_Bond = ''0.00'', Active_Nomination = ''0.00'',
             Inactive_Nomination = ''0.00'', Total_Nomination = ''0.00'',
             Total_Active_Stake = ''0.00'', Commission = ''0.00'', Nominators = ''0/0'' \<rparr>)
   \<and> (\<forall>i < length vs. \<not> queriesFail a era (vs ! i) \<longrightarrow>
         (\<exists>m. validatorMetrics inactiveMultiplier_p0 a era nm (vs ! i) = Inr m
            \<and> processValidatorsBatch_p0 a vs era nm ! i = formatReport (vs ! i) m))
   \<and> batchLoop (\<lambda>b. processValidatorsBatch_p0 a b era nm) vs 0 [] = processValidatorsBatch_p0 a vs era nm
   \<and> parseFloat ''0.00'' = Fin 0"
proof -
  have 1: "map Validator (processValidatorsBatch a vs era nm) = vs"
    by (simp add: processValidatorsBatch_def Validator_processValidator comp_def)
  have 2: "map Validator (processValidatorsBatch_p0 a vs era nm) = vs"
    by (simp add: processValidatorsBatch_p0_def Validator_processValidator_p0 comp_def)
  have 3: "\<forall>i < length vs. queriesFail a era (vs ! i) \<longrightarrow>
         processValidatorsBatch a vs era nm ! i = zeroRow (vs ! i)"
    by (simp add: processValidatorsBatch_def processValidator_zero)
  have 4: "\<forall>i < length vs. queriesFail a era (vs ! i) \<longrightarrow>
         processValidatorsBatch_p0 a vs era nm ! i = zeroRow (vs ! i)"
    by (simp add: processValidatorsBatch_p0_def processValidator_p0_zero)
  have 5: "length (processValidatorsBatch a vs era nm) = length vs"
    by (simp add: processValidatorsBatch_def)
  have 6: "length (processValidatorsBatch_p0 a vs era nm) = length vs"
    by (simp add: processValidatorsBatch_p0_def)
  have 7: "\<forall>i < length vs. \<not> queriesFail a era (vs ! i) \<longrightarrow>
         (\<exists>m. validatorMetrics (\<lambda>v pct avg n. inactiveMultiplier pct) a era nm (vs ! i) = Inr m
            \<and> processValidatorsBatch a vs era nm ! i = formatReport (vs ! i) m)"
    by (simp add: processValidatorsBatch_def processValidator_computed)
  have 8: "\<forall>i < length vs. \<not> queriesFail a era (vs ! i) \<longrightarrow>
         (\<exists>m. validatorMetrics inactiveMultiplier_p0 a era nm (vs ! i) = Inr m
            \<and> processValidatorsBatch_p0 a vs era nm ! i = formatReport (vs ! i) m)"
    by (simp add: processValidatorsBatch_p0_def processValidator_p0_computed)
  note 9 = batchLoop_batches[of a era nm vs] batchLoop_batches_p0[of a era nm vs] parseFloat_zero
  from 3 have z3: "\<forall>i < length vs. queriesFail a era (vs ! i) \<longrightarrow>
         processValidatorsBatch a vs era nm ! i =
           \<lparr> Validator = vs ! i, Self_Bond = ''0.00'', Active_Nomination = ''0.00'',
             Inactive_Nomination = ''0.00'', Total_Nomination = ''0.00'',
             Total_Active_Stake = ''0.00'', Commission = ''0.00'', Nominators = ''0/0'' \<rparr>"
    unfolding zeroRow_def .
  from 4 have z4: "\<forall>i < length vs. queriesFail a era (vs ! i) \<longrightarrow>
         processValidatorsBatch_p0 a vs era nm ! i =
           \<lparr> Validator = vs ! i, Self_Bond = ''0.00'', Active_Nomination = ''0.00'',
             Inactive_Nomination = ''0.00'', Total_Nomination = ''0.00'',
             Total_Active_Stake = ''0.00'', Commission = ''0.00'', Nominators = ''0/0'' \<rparr>"
    unfolding zeroRow_def .
  show ?thesis
    by (intro conjI 5 1 z3 7 9 6 2 z4 8)
qed

theorem batch_failure_isolated_witness:
  "(1::nat) < length [''V1'', ''V2'', ''V3''] \<and> queriesFail api_fail 1500 ([''V1'', ''V2'', ''V3''] ! 1)
   \<and> processValidatorsBatch api_fail [''V1'', ''V2'', ''V3''] 1500 [] ! 1 =
           \<lparr> Validator = [''V1'', ''V2'', ''V3''] ! 1, Self_Bond = ''0.00'', Active_Nomination = ''0.00'',
             Inactive_Nomination = ''0.00'', Total_Nomination = ''0.00'',
             Total_Active_Stake = ''0.00'', Commission = ''0.00'', Nominators = ''0/0'' \<rparr>
   \<and> processValidatorsBatch_p0 api_fail [''V1'', ''V2'', ''V3''] 1500 [] ! 1 =
           \<lparr> Validator = [''V1'', ''V2'', ''V3''] ! 1, Self_Bond = ''0.00'', Active_Nomination = ''0.00'',
             Inactive_Nomination = ''0.00'', Total_Nomination = ''0.00'',
             Total_Active_Stake = ''0.00'', Commission = ''0.00'', Nominators = ''0/0'' \<rparr>
   \<and> (2::nat) < length [''V1'', ''V2'', ''V3''] \<and> \<not> queriesFail api_fail 1500 ([''V1'', ''V2'', ''V3''] ! 2)
   \<and> (\<exists>m. validatorMetrics (\<lambda>v pct avg n. inactiveMultiplier pct) api_fail 1500 [] ([''V1'', ''V2'', ''V3''] ! 2) = Inr m
          \<and> processValidatorsBatch api_fail [''V1'', ''V2'', ''V3''] 1500 [] ! 2
              = formatReport ([''V1'', ''V2'', ''V3''] ! 2) m)
   \<and> (\<exists>m. validatorMetrics inactiveMultiplier_p0 api_fail 1500 [] ([''V1'', ''V2'', ''V3''] ! 2) = Inr m
          \<and> processValidatorsBatch_p0 api_fail [''V1'', ''V2'', ''V3''] 1500 [] ! 2
              = formatReport ([''V1'', ''V2'', ''V3''] ! 2) m)
   \<and> length (processValidatorsBatch api_fail [''V1'', ''V2'', ''V3''] 1500 []) = length [''V1'', ''V2'', ''V3'']"
proof -
  have f: "queriesFail api_fail 1500 ([''V1'', ''V2'', ''V3''] ! 1)"
    by (simp add: queriesFail_def api_fail_def api_ok_def)
  have l: "(1::nat) < length [''V1'', ''V2'', ''V3'']" by simp
  have g: "\<not> queriesFail api_fail 1500 ([''V1'', ''V2'', ''V3''] ! 2)"
    by (simp add: queriesFail_def api_fail_def api_ok_def commission_toNumber_def)
  have k: "(2::nat) < length [''V1'', ''V2'', ''V3'']" by simp
  from batch_failure_isolated[of api_fail "[''V1'', ''V2'', ''V3'']" 1500 "[]"] f l g k
  show ?thesis by blast
qed

section \<open>The worked scenario\<close>

lemma scenario_metrics:
  "computeMetrics (\<lambda>pct avg n. inactiveMultiplier pct) (Some 1000000000000) (Fin 50000000) 3
     \<lparr> total_exp = t, own_exp = ow, others = [(w, 10000000000000)] \<rparr>
   = \<lparr> ownStake = Fin 100, commissionPct = Fin 5, activeStake = Fin 1000,
       activeNominatorCount = 1, totalNominatorCount = 3, inactiveNominatorCount = 2,
       inactiveStake = Fin 1400, totalNomination = Fin 2400, totalActiveStake = Fin 1100 \<rparr>"
  by code_simp

lemma scenario_format:
  "formatReport v \<lparr> ownStake = Fin 100, commissionPct = Fin 5, activeStake = Fin 1000,
       activeNominatorCount = 1, totalNominatorCount = 3, inactiveNominatorCount = 2,
       inactiveStake = Fin 1400, totalNomination = Fin 2400, totalActiveStake = Fin 1100 \<rparr>
   = \<lparr> Validator = v, Self_Bond = ''100.0000'', Active_Nomination = ''1000.0000'',
       Inactive_Nomination = ''1400.0000'', Total_Nomination = ''2400.0000'',
       Total_Active_Stake = ''1100.0000'', Commission = ''5.00'', Nominators = ''1/3'' \<rparr>"
  by code_simp

lemma scenario_steps:
  "js_div (Fin 1000) (Number_of 1) = Fin 1000 \<and> inactiveMultiplier (Fin 5) = fl (7 / 10)
   \<and> js_mul (js_mul (Fin 1000) (fl (7 / 10))) (Number_of 2) = Fin 1400"
  by code_simp

lemma commission_5pct: "commission_toNumber (Some 50000000) = Inr (Fin 50000000)"
  by code_simp

text \<open>
  Claim C2. In validator-cli.js, for every validator whose exposure holds
  exactly one other delegation of 1000 tokens (10000000000000 native units, 10
  decimals), whose ledger total is 100 tokens, whom three nominators of the
  registry target and whose commission is 5\% (50000000 parts per billion), the
  row reads: self bond 100.0000, active 1000.0000, inactive 1400.0000, total
  nomination 2400.0000, total active stake 1100.0000, commission 5.00,
  nominators 1/3; the inactive count is 2, the average per nominator 1000,
  the multiplier 0.7, and 1000 times 0.7 times 2 is 1400 in binary64.
\<close>

theorem scenario_report:
  assumes "staking_validators a v = Inr (Some 50000000)"
    and "staking_account a v = Inr (Some 1000000000000)"
    and "erasStakers a era v = Inr e"
    and "others e = [(w, 10000000000000)]"
    and "length (targetingNominators nm v) = 3"
  shows "validatorMetrics (\<lambda>v pct avg n. inactiveMultiplier pct) a era nm v =
           Inr \<lparr> ownStake = Fin 100, commissionPct = Fin 5, activeStake = Fin 1000,
                 activeNominatorCount = 1, totalNominatorCount = 3, inactiveNominatorCount = 2,
                 inactiveStake = Fin 1400, totalNomination = Fin 2400, totalActiveStake = Fin 1100 \<rparr>
         \<and> processValidatorsBatch a [v] era nm =
           [\<lparr> Validator = v, Self_Bond = ''100.0000'', Active_Nomination = ''1000.0000'',
              Inactive_Nomination = ''1400.0000'', Total_Nomination = ''2400.0000'',
              Total_Active_Stake = ''1100.0000'', Commission = ''5.00'', Nominators = ''1/3'' \<rparr>]
         \<and> js_div (Fin 1000) (Number_of 1) = Fin 1000 \<and> inactiveMultiplier (Fin 5) = fl (7 / 10)
         \<and> js_mul (js_mul (Fin 1000) (fl (7 / 10))) (Number_of 2) = Fin 1400"
proof -
  have e: "e = \<lparr> total_exp = total_exp e, own_exp = own_exp e, others = [(w, 10000000000000)] \<rparr>"
    using assms(4) by (cases e) simp
  have m: "validatorMetrics (\<lambda>v pct avg n. inactiveMultiplier pct) a era nm v =
           Inr (computeMetrics (\<lambda>pct avg n. inactiveMultiplier pct) (Some 1000000000000) (Fin 50000000) 3
     \<lparr> total_exp = total_exp e, own_exp = own_exp e, others = [(w, 10000000000000)] \<rparr>)"
    using assms(1,2,3,5) e by (simp add: validatorMetrics_def commission_5pct)
  then have m': "validatorMetrics (\<lambda>v pct avg n. inactiveMultiplier pct) a era nm v =
           Inr \<lparr> ownStake = Fin 100, commissionPct = Fin 5, activeStake = Fin 1000,
                 activeNominatorCount = 1, totalNominatorCount = 3, inactiveNominatorCount = 2,
                 inactiveStake = Fin 1400, totalNomination = Fin 2400, totalActiveStake = Fin 1100 \<rparr>"
    by (simp only: scenario_metrics)
  have r: "processValidatorsBatch a [v] era nm =
           [\<lparr> Validator = v, Self_Bond = ''100.0000'', Active_Nomination = ''1000.0000'',
              Inactive_Nomination = ''1400.0000'', Total_Nomination = ''2400.0000'',
              Total_Active_Stake = ''1100.0000'', Commission = ''5.00'', Nominators = ''1/3'' \<rparr>]"
    by (simp only: processValidatorsBatch_def processValidator_def m' scenario_format list.map sum.case)
  from m' r scenario_steps show ?thesis by blast
qed

lemma targeting_V1:
  "length (targetingNominators
      (buildNominatorsMap registry_ok) ''V1'') = 3"
  by code_simp

theorem scenario_report_witness:
  "staking_validators api_ok ''V1'' = Inr (Some 50000000)
   \<and> staking_account api_ok ''V1'' = Inr (Some 1000000000000)
   \<and> erasStakers api_ok 1500 ''V1'' = Inr \<lparr> total_exp = 11000000000000, own_exp = 1000000000000,
                                      others = [(''N1'', 10000000000000)] \<rparr>
   \<and> length (targetingNominators
      (buildNominatorsMap registry_ok) ''V1'') = 3
   \<and> processValidatorsBatch api_ok [''V1''] 1500 (buildNominatorsMap registry_ok) =
           [\<lparr> Validator = ''V1'', Self_Bond = ''100.0000'', Active_Nomination = ''1000.0000'',
              Inactive_Nomination = ''1400.0000'', Total_Nomination = ''2400.0000'',
              Total_Active_Stake = ''1100.0000'', Commission = ''5.00'', Nominators = ''1/3'' \<rparr>]"
proof -
  have 1: "staking_validators api_ok ''V1'' = Inr (Some 50000000)" by (simp add: api_ok_def)
  have 2: "staking_account api_ok ''V1'' = Inr (Some 1000000000000)" by (simp add: api_ok_def)
  have 3: "erasStakers api_ok 1500 ''V1'' = Inr \<lparr> total_exp = 11000000000000, own_exp = 1000000000000,
                                      others = [(''N1'', 10000000000000)] \<rparr>" by (simp add: api_ok_def)
  have 4: "others \<lparr> total_exp = 11000000000000, own_exp = 1000000000000,
                                      others = [(''N1'', 10000000000000)] \<rparr> = [(''N1'', 10000000000000)]" by simp
  from scenario_report[OF 1 2 3 4 targeting_V1] 1 2 3 targeting_V1 show ?thesis by blast
qed

section \<open>The estimate of the inactive stake\<close>

lemma validatorMetrics_InrD:
  assumes "validatorMetrics mult a era nm v = Inr m"
  obtains ledger commission e where
    "erasStakers a era v = Inr e"
    "m = computeMetrics (mult v) ledger commission (length (targetingNominators nm v)) e"
  using assms by (auto simp: validatorMetrics_def Let_def split: sum.splits)

lemma clamp_nat: "nat (max 0 (int n - int k)) = n - k"
  by (cases "k \<le> n") (simp_all add: max_def)

lemma computeMetrics_counts:
  "activeNominatorCount (computeMetrics mu ledger commission n e) = length (others e)"
  "totalNominatorCount (computeMetrics mu ledger commission n e) = n"
  "inactiveNominatorCount (computeMetrics mu ledger commission n e) = n - length (others e)"
  unfolding computeMetrics_def Let_def clamp_nat by simp_all

lemma computeMetrics_inactiveStake:
  "inactiveStake (computeMetrics mu ledger commission n e) =
     (if 0 < length (others e) \<and> 0 < n - length (others e)
      then js_mul (js_mul (js_div (sumActiveStake (others e)) (Number_of (length (others e))))
                    (mu (js_div commission (Fin 10000000))
                        (js_div (sumActiveStake (others e)) (Number_of (length (others e))))
                        (n - length (others e))))
             (Number_of (n - length (others e)))
      else Fin 0)"
  unfolding computeMetrics_def Let_def clamp_nat by simp

lemma computeMetrics_fields:
  "activeStake (computeMetrics mu ledger commission n e) = sumActiveStake (others e)"
  "commissionPct (computeMetrics mu ledger commission n e) = js_div commission (Fin 10000000)"
  by (simp_all add: computeMetrics_def Let_def)

lemma toFixed_zero4: "toFixed (Fin 0) 4 = ''0.0000''"
  by code_simp

text \<open>
  Claim C6. In both scripts (\<open>mult\<close> is the multiplier of either), for every
  validator whose queries succeed, the inactive stake is 0 whenever the active
  nominator count is 0 or the inactive nominator count is 0, whatever the
  commission and the stakes are; the row then shows \<open>0.0000\<close>.
\<close>

theorem inactive_stake_zero:
  assumes "validatorMetrics mult a era nm v = Inr m"
    and "activeNominatorCount m = 0 \<or> inactiveNominatorCount m = 0"
  shows "inactiveStake m = Fin 0 \<and> Inactive_Nomination (formatReport v m) = ''0.0000''"
proof -
  from assms(1) obtain ledger commission e where
    m: "m = computeMetrics (mult v) ledger commission (length (targetingNominators nm v)) e"
    by (rule validatorMetrics_InrD)
  from assms(2) have "inactiveStake m = Fin 0"
    unfolding m computeMetrics_counts computeMetrics_inactiveStake by auto
  then show ?thesis by (simp add: formatReport_def toFixed_zero4)
qed

lemma metrics_V2:
  "validatorMetrics (\<lambda>v pct avg n. inactiveMultiplier pct) api_ok 1500
     (buildNominatorsMap registry_ok) ''V2'' =
   Inr \<lparr> ownStake = Fin 100, commissionPct = Fin 5, activeStake = Fin 1000,
       activeNominatorCount = 1, totalNominatorCount = 1, inactiveNominatorCount = 0,
       inactiveStake = Fin 0, totalNomination = Fin 1000, totalActiveStake = Fin 1100 \<rparr>"
  by code_simp

theorem inactive_stake_zero_witness:
  "validatorMetrics (\<lambda>v pct avg n. inactiveMultiplier pct) api_ok 1500
     (buildNominatorsMap registry_ok) ''V2'' =
   Inr \<lparr> ownStake = Fin 100, commissionPct = Fin 5, activeStake = Fin 1000,
       activeNominatorCount = 1, totalNominatorCount = 1, inactiveNominatorCount = 0,
       inactiveStake = Fin 0, totalNomination = Fin 1000, totalActiveStake = Fin 1100 \<rparr>
   \<and> (activeNominatorCount \<lparr> ownStake = Fin 100, commissionPct = Fin 5, activeStake = Fin 1000,
       activeNominatorCount = 1, totalNominatorCount = 1, inactiveNominatorCount = 0,
       inactiveStake = Fin 0, totalNomination = Fin 1000, totalActiveStake = Fin 1100 \<rparr> = 0
      \<or> inactiveNominatorCount \<lparr> ownStake = Fin 100, commissionPct = Fin 5, activeStake = Fin 1000,
       activeNominatorCount = 1, totalNominatorCount = 1, inactiveNominatorCount = 0,
       inactiveStake = Fin 0, totalNomination = Fin 1000, totalActiveStake = Fin 1100 \<rparr> = 0)
   \<and> Inactive_Nomination (formatReport ''V2'' \<lparr> ownStake = Fin 100, commissionPct = Fin 5, activeStake = Fin 1000,
       activeNominatorCount = 1, totalNominatorCount = 1, inactiveNominatorCount = 0,
       inactiveStake = Fin 0, totalNomination = Fin 1000, totalActiveStake = Fin 1100 \<rparr>) = ''0.0000''"
proof -
  have h: "activeNominatorCount \<lparr> ownStake = Fin 100, commissionPct = Fin 5, activeStake = Fin 1000,
       activeNominatorCount = 1, totalNominatorCount = 1, inactiveNominatorCount = 0,
       inactiveStake = Fin 0, totalNomination = Fin 1000, totalActiveStake = Fin 1100 \<rparr> = 0
      \<or> inactiveNominatorCount \<lparr> ownStake = Fin 100, commissionPct = Fin 5, activeStake = Fin 1000,
       activeNominatorCount = 1, totalNominatorCount = 1, inactiveNominatorCount = 0,
       inactiveStake = Fin 0, totalNomination = Fin 1000, totalActiveStake = Fin 1100 \<rparr> = 0"
    by simp
  from inactive_stake_zero[OF metrics_V2 h] metrics_V2 h show ?thesis by blast
qed

section \<open>The nominator counts\<close>

text \<open>
  Claim C1, as amended. In both scripts the active count is the length of
  \<open>exposure.others\<close>, the total count is the number of registry entries
  that target the validator, and the inactive count is their difference
  clamped at zero, hence never negative. No clamp is applied to the active
  count: it is at most the total count exactly when the exposure is no longer
  than the list of targeting nominators, and the row shows the two counts as
  they are. The counterexample is an exposure whose one nominator has a
  registry entry that does not decode: the row shows \<open>1/0\<close>.
\<close>

theorem delegator_counts:
  assumes "validatorMetrics mult a era nm v = Inr m"
    and "erasStakers a era v = Inr e"
  shows "activeNominatorCount m = length (others e)
       \<and> totalNominatorCount m = length (targetingNominators nm v)
       \<and> int (inactiveNominatorCount m) = max 0 (int (totalNominatorCount m) - int (activeNominatorCount m))
       \<and> (activeNominatorCount m \<le> totalNominatorCount m) =
           (length (others e) \<le> length (targetingNominators nm v))
       \<and> Nominators (formatReport v m) =
           dec_digits (int (length (others e))) @ ''/''
             @ dec_digits (int (length (targetingNominators nm v)))"
proof -
  from assms(1) obtain ledger commission e' where
    e': "erasStakers a era v = Inr e'" and
    m: "m = computeMetrics (mult v) ledger commission (length (targetingNominators nm v)) e'"
    by (rule validatorMetrics_InrD)
  from e' assms(2) have "e' = e" by simp
  with m show ?thesis
    by (auto simp: computeMetrics_counts formatReport_def)
qed

lemma metrics_unindexed:
  "validatorMetrics (\<lambda>v pct avg n. inactiveMultiplier pct) api_ok 1500
     (buildNominatorsMap [(''N1'', None)]) ''V1'' =
   Inr \<lparr> ownStake = Fin 100, commissionPct = Fin 5, activeStake = Fin 1000,
       activeNominatorCount = 1, totalNominatorCount = 0, inactiveNominatorCount = 0,
       inactiveStake = Fin 0, totalNomination = Fin 1000, totalActiveStake = Fin 1100 \<rparr>"
  by code_simp

lemma row_unindexed:
  "Nominators (processValidator api_ok 1500 (buildNominatorsMap [(''N1'', None)]) ''V1'') = ''1/0''"
  by code_simp

lemma row_unindexed_p0:
  "Nominators (processValidator_p0 api_ok 1500 (buildNominatorsMap [(''N1'', None)]) ''V1'') = ''1/0''"
  by code_simp

theorem active_exceeds_total_counterexample:
  "validatorMetrics (\<lambda>v pct avg n. inactiveMultiplier pct) api_ok 1500
     (buildNominatorsMap [(''N1'', None)]) ''V1'' =
   Inr \<lparr> ownStake = Fin 100, commissionPct = Fin 5, activeStake = Fin 1000,
       activeNominatorCount = 1, totalNominatorCount = 0, inactiveNominatorCount = 0,
       inactiveStake = Fin 0, totalNomination = Fin 1000, totalActiveStake = Fin 1100 \<rparr>
   \<and> \<not> (1::nat) \<le> 0
   \<and> Nominators (processValidator api_ok 1500 (buildNominatorsMap [(''N1'', None)]) ''V1'') = ''1/0''
   \<and> Nominators (processValidator_p0 api_ok 1500 (buildNominatorsMap [(''N1'', None)]) ''V1'') = ''1/0''"
  using metrics_unindexed row_unindexed row_unindexed_p0 by simp

theorem delegator_counts_witness:
  "validatorMetrics (\<lambda>v pct avg n. inactiveMultiplier pct) api_ok 1500
     (buildNominatorsMap [(''N1'', None)]) ''V1'' =
   Inr \<lparr> ownStake = Fin 100, commissionPct = Fin 5, activeStake = Fin 1000,
       activeNominatorCount = 1, totalNominatorCount = 0, inactiveNominatorCount = 0,
       inactiveStake = Fin 0, totalNomination = Fin 1000, totalActiveStake = Fin 1100 \<rparr>
   \<and> erasStakers api_ok 1500 ''V1'' = Inr \<lparr> total_exp = 11000000000000, own_exp = 1000000000000,
                                      others = [(''N1'', 10000000000000)] \<rparr>
   \<and> Nominators (formatReport ''V1'' \<lparr> ownStake = Fin 100, commissionPct = Fin 5, activeStake = Fin 1000,
       activeNominatorCount = 1, totalNominatorCount = 0, inactiveNominatorCount = 0,
       inactiveStake = Fin 0, totalNomination = Fin 1000, totalActiveStake = Fin 1100 \<rparr>) =
           dec_digits (int (length (others \<lparr> total_exp = 11000000000000, own_exp = 1000000000000,
                                      others = [(''N1'', 10000000000000)] \<rparr>))) @ ''/''
             @ dec_digits (int (length (targetingNominators (buildNominatorsMap [(''N1'', None)]) ''V1'')))"
proof -
  have e: "erasStakers api_ok 1500 ''V1'' = Inr \<lparr> total_exp = 11000000000000, own_exp = 1000000000000,
                                      others = [(''N1'', 10000000000000)] \<rparr>"
    by (simp add: api_ok_def)
  from delegator_counts[OF metrics_unindexed e] metrics_unindexed e show ?thesis by blast
qed

section \<open>The multiplier\<close>

lemma tiers:
  "inactiveMultiplier (js_div (Fin 50000000) (Fin 10000000)) = fl (7 / 10)
   \<and> inactiveMultiplier (js_div (Fin 150000000) (Fin 10000000)) = fl (7 / 10)
   \<and> inactiveMultiplier (js_div (Fin 49900000) (Fin 10000000)) = fl (6 / 10)
   \<and> inactiveMultiplier (js_div (Fin 150100000) (Fin 10000000)) = fl (8 / 10)"
  by code_simp

lemma row_tv_p0:
  "Inactive_Nomination (processValidator_p0 api_ok 1500 (buildNominatorsMap registry_tv) testValidator)
     = ''2783408.3835''"
  by code_simp

lemma row_tv:
  "Inactive_Nomination (processValidator api_ok 1500 (buildNominatorsMap registry_tv) testValidator)
     = ''1400.0000''"
  by code_simp

lemma mult_tv: "inactiveMultiplier_p0 testValidator (Fin 5) (Fin 1000) 2 \<noteq> fl (7 / 10)"
  by code_simp


lemma metrics_inactiveStake_cli:
  assumes "validatorMetrics (\<lambda>v pct avg n. inactiveMultiplier pct) a era nm v = Inr m"
    and "0 < activeNominatorCount m" and "0 < inactiveNominatorCount m"
  shows "inactiveStake m =
           js_mul (js_mul (js_div (activeStake m) (Number_of (activeNominatorCount m)))
                     (inactiveMultiplier (commissionPct m)))
             (Number_of (inactiveNominatorCount m))"
proof -
  from assms(1) obtain ledger commission e where
    m: "m = computeMetrics (\<lambda>pct avg n. inactiveMultiplier pct) ledger commission
              (length (targetingNominators nm v)) e"
    by (rule validatorMetrics_InrD)
  from assms(2,3) show ?thesis
    unfolding m computeMetrics_counts computeMetrics_inactiveStake computeMetrics_fields by simp
qed

lemma metrics_inactiveStake_tv:
  assumes "validatorMetrics inactiveMultiplier_p0 a era nm testValidator = Inr m"
    and "0 < activeNominatorCount m" and "0 < inactiveNominatorCount m"
  shows "inactiveStake m =
           js_mul (js_mul (js_div (activeStake m) (Number_of (activeNominatorCount m)))
                     (js_div expectedInactive
                        (js_mul (js_div (activeStake m) (Number_of (activeNominatorCount m)))
                           (Number_of (inactiveNominatorCount m)))))
             (Number_of (inactiveNominatorCount m))"
proof -
  from assms(1) obtain ledger commission e where
    m: "m = computeMetrics (inactiveMultiplier_p0 testValidator) ledger commission
              (length (targetingNominators nm testValidator)) e"
    by (rule validatorMetrics_InrD)
  from assms(2,3) show ?thesis
    unfolding m computeMetrics_counts computeMetrics_inactiveStake computeMetrics_fields
    by (simp add: inactiveMultiplier_p0_def)
qed

lemma metrics_p0_other:
  assumes "v \<noteq> testValidator"
  shows "validatorMetrics inactiveMultiplier_p0 a era nm v =
         validatorMetrics (\<lambda>v pct avg n. inactiveMultiplier pct) a era nm v"
proof -
  have h: "inactiveMultiplier_p0 v = (\<lambda>pct avg n. inactiveMultiplier pct)"
    using assms by (intro ext) (simp add: inactiveMultiplier_p0_def)
  show ?thesis unfolding validatorMetrics_def h by (rule refl)
qed

text \<open>
  Claim C5, as amended. In validator-cli.js the multiplier is chosen by the
  commission tier alone, for every validator: 5\% and 15\% give 0.7, 4.99\% gives
  0.6, 15.01\% gives 0.8, and with an active and an inactive nominator the
  inactive stake is the average times that multiplier times the inactive
  count. The earlier script does the same for every validator but its
  configured test validator, for which the multiplier is the expected inactive
  nomination divided by the average times the inactive count. The
  counterexample is the test validator at 5\% commission: its multiplier is not
  0.7, and the estimate is 2783408.3835 where validator-cli.js gives 1400.0000.
\<close>

theorem multiplier_by_tier:
  "inactiveMultiplier (js_div (Fin 50000000) (Fin 10000000)) = fl (7 / 10)
   \<and> inactiveMultiplier (js_div (Fin 150000000) (Fin 10000000)) = fl (7 / 10)
   \<and> inactiveMultiplier (js_div (Fin 49900000) (Fin 10000000)) = fl (6 / 10)
   \<and> inactiveMultiplier (js_div (Fin 150100000) (Fin 10000000)) = fl (8 / 10)
   \<and> (validatorMetrics (\<lambda>v pct avg n. inactiveMultiplier pct) a era nm v = Inr m \<longrightarrow>
        0 < activeNominatorCount m \<longrightarrow> 0 < inactiveNominatorCount m \<longrightarrow>
        inactiveStake m =
           js_mul (js_mul (js_div (activeStake m) (Number_of (activeNominatorCount m)))
                     (inactiveMultiplier (commissionPct m)))
             (Number_of (inactiveNominatorCount m)))
   \<and> (v \<noteq> testValidator \<longrightarrow>
        validatorMetrics inactiveMultiplier_p0 a era nm v =
        validatorMetrics (\<lambda>v pct avg n. inactiveMultiplier pct) a era nm v)
   \<and> (validatorMetrics inactiveMultiplier_p0 a era nm testValidator = Inr m' \<longrightarrow>
        0 < activeNominatorCount m' \<longrightarrow> 0 < inactiveNominatorCount m' \<longrightarrow>
        inactiveStake m' =
           js_mul (js_mul (js_div (activeStake m') (Number_of (activeNominatorCount m')))
                     (js_div expectedInactive
                        (js_mul (js_div (activeStake m') (Number_of (activeNominatorCount m')))
                           (Number_of (inactiveNominatorCount m')))))
             (Number_of (inactiveNominatorCount m')))"
  using tiers metrics_inactiveStake_cli[of a era nm v m] metrics_p0_other[of v a era nm]
    metrics_inactiveStake_tv[of a era nm m']
  by blast

theorem calibrated_multiplier_counterexample:
  "inactiveMultiplier_p0 testValidator (Fin 5) (Fin 1000) 2 \<noteq> fl (7 / 10)
   \<and> Inactive_Nomination (processValidator_p0 api_ok 1500 (buildNominatorsMap registry_tv) testValidator)
       = ''2783408.3835''
   \<and> Inactive_Nomination (processValidator api_ok 1500 (buildNominatorsMap registry_tv) testValidator)
       = ''1400.0000''"
  using mult_tv row_tv_p0 row_tv by simp

lemma metrics_V1:
  "validatorMetrics (\<lambda>v pct avg n. inactiveMultiplier pct) api_ok 1500
     (buildNominatorsMap registry_ok) ''V1'' =
   Inr \<lparr> ownStake = Fin 100, commissionPct = Fin 5, activeStake = Fin 1000,
       activeNominatorCount = 1, totalNominatorCount = 3, inactiveNominatorCount = 2,
       inactiveStake = Fin 1400, totalNomination = Fin 2400, totalActiveStake = Fin 1100 \<rparr>"
  by code_simp

lemma metrics_tv_Inr:
  "validatorMetrics inactiveMultiplier_p0 api_ok 1500 (buildNominatorsMap registry_tv) testValidator =
   Inr (projr (validatorMetrics inactiveMultiplier_p0 api_ok 1500 (buildNominatorsMap registry_tv) testValidator))"
  by (simp add: validatorMetrics_def api_ok_def commission_toNumber_def)

lemma metrics_tv_counts:
  "0 < activeNominatorCount (projr (validatorMetrics inactiveMultiplier_p0 api_ok 1500 (buildNominatorsMap registry_tv) testValidator))
   \<and> 0 < inactiveNominatorCount (projr (validatorMetrics inactiveMultiplier_p0 api_ok 1500 (buildNominatorsMap registry_tv) testValidator))"
  by code_simp

lemma V1_not_tv: "''V1'' \<noteq> testValidator"
  by (simp add: testValidator_def)

theorem multiplier_by_tier_witness:
  "validatorMetrics (\<lambda>v pct avg n. inactiveMultiplier pct) api_ok 1500
     (buildNominatorsMap registry_ok) ''V1'' =
   Inr \<lparr> ownStake = Fin 100, commissionPct = Fin 5, activeStake = Fin 1000,
       activeNominatorCount = 1, totalNominatorCount = 3, inactiveNominatorCount = 2,
       inactiveStake = Fin 1400, totalNomination = Fin 2400, totalActiveStake = Fin 1100 \<rparr>
   \<and> (0::nat) < 1 \<and> (0::nat) < 2
   \<and> Fin 1400 = js_mul (js_mul (js_div (Fin 1000) (Number_of 1)) (inactiveMultiplier (Fin 5))) (Number_of 2)
   \<and> ''V1'' \<noteq> testValidator
   \<and> validatorMetrics inactiveMultiplier_p0 api_ok 1500 (buildNominatorsMap registry_ok) ''V1'' =
       validatorMetrics (\<lambda>v pct avg n. inactiveMultiplier pct) api_ok 1500 (buildNominatorsMap registry_ok) ''V1''
   \<and> validatorMetrics inactiveMultiplier_p0 api_ok 1500 (buildNominatorsMap registry_tv) testValidator =
       Inr (projr (validatorMetrics inactiveMultiplier_p0 api_ok 1500 (buildNominatorsMap registry_tv) testValidator))
   \<and> 0 < activeNominatorCount (projr (validatorMetrics inactiveMultiplier_p0 api_ok 1500 (buildNominatorsMap registry_tv) testValidator))
   \<and> 0 < inactiveNominatorCount (projr (validatorMetrics inactiveMultiplier_p0 api_ok 1500 (buildNominatorsMap registry_tv) testValidator))"
proof -
  let ?m = "\<lparr> ownStake = Fin 100, commissionPct = Fin 5, activeStake = Fin 1000,
       activeNominatorCount = 1, totalNominatorCount = 3, inactiveNominatorCount = 2,
       inactiveStake = Fin 1400, totalNomination = Fin 2400, totalActiveStake = Fin 1100 \<rparr>"
  have a: "0 < activeNominatorCount ?m" by simp
  have b: "0 < inactiveNominatorCount ?m" by simp
  from multiplier_by_tier[of api_ok 1500 "buildNominatorsMap registry_ok" "''V1''" ?m]
  have c: "inactiveStake ?m =
           js_mul (js_mul (js_div (activeStake ?m) (Number_of (activeNominatorCount ?m)))
                     (inactiveMultiplier (commissionPct ?m)))
             (Number_of (inactiveNominatorCount ?m))"
    and d: "validatorMetrics inactiveMultiplier_p0 api_ok 1500 (buildNominatorsMap registry_ok) ''V1'' =
       validatorMetrics (\<lambda>v pct avg n. inactiveMultiplier pct) api_ok 1500 (buildNominatorsMap registry_ok) ''V1''"
    using metrics_V1 a b V1_not_tv by blast+
  from c have c': "Fin 1400 = js_mul (js_mul (js_div (Fin 1000) (Number_of 1)) (inactiveMultiplier (Fin 5))) (Number_of 2)"
    by simp
  from metrics_V1 c' d V1_not_tv metrics_tv_Inr metrics_tv_counts show ?thesis by simp
qed

section \<open>saveCache\<close>

text \<open>
  Claim C4, as amended. \<open>saveCache\<close>, the same in both scripts, makes one
  call into \<open>fs\<close>: \<open>writeFileSync\<close> on the cache file itself, with the
  record of the current time and the data. There is no temporary path and no
  rename. When the write succeeds the file holds that record; when it throws,
  the error is logged and the file is left as the failed write left it. The
  counterexample is the trace of one call: a single write to
  \<open>./validator-cache.json\<close>.
\<close>

theorem saveCache_writes_in_place:
  "trace (saveCache d w) =
     trace w @ WriteFileSync cacheFile (Number_of (clock w)) d
       # (case write_fault w of None \<Rightarrow> [] | Some f \<Rightarrow> [ConsoleError ''Error saving cache''])
   \<and> cache (saveCache d w) =
       (case write_fault w of None \<Rightarrow> Parsed (Number_of (clock w)) (Some d) | Some f \<Rightarrow> f)
   \<and> clock (saveCache d w) = clock w"
  by (simp add: saveCache_def emit_def Let_def split: option.splits)

lemma clock0: "Number_of 1700000000000 = Fin 1700000000000"
  by code_simp

theorem saveCache_no_rename_counterexample:
  "trace (saveCache (JArr []) world0) = [WriteFileSync ''./validator-cache.json'' (Fin 1700000000000) (JArr [])]
   \<and> cache (saveCache (JArr []) world0) = Parsed (Fin 1700000000000) (Some (JArr []))"
  by (simp add: saveCache_def emit_def Let_def world0_def cacheFile_def clock0)

section \<open>The format of the rows\<close>

lemma digit_char_digit: "0 \<le> d \<Longrightarrow> d < 10 \<Longrightarrow> digit_char d \<in> set ''0123456789''"
proof -
  assume "0 \<le> d" "d < 10"
  then have "nat d < length ''0123456789''" by simp
  then have "''0123456789'' ! nat d \<in> set ''0123456789''" by (rule nth_mem)
  then show ?thesis by (simp only: digit_char_def)
qed

lemma dec_digits_digits: "0 \<le> n \<Longrightarrow> set (dec_digits n) \<subseteq> set ''0123456789''"
proof (induction n rule: dec_digits.induct)
  case (1 n)
  show ?case
  proof (cases "n < 10")
    case True
    with 1(2) digit_char_digit[of n] show ?thesis by (subst dec_digits.simps) simp
  next
    case False
    then have "0 \<le> n div 10" by simp
    from 1(1)[OF False this] have ih: "set (dec_digits (n div 10)) \<subseteq> set ''0123456789''" .
    have "digit_char (n mod 10) \<in> set ''0123456789''"
      by (rule digit_char_digit) simp_all
    with ih False show ?thesis by (subst dec_digits.simps) simp
  qed
qed

lemma dec_digits_no_point: "0 \<le> n \<Longrightarrow> c \<in> set (dec_digits n) \<Longrightarrow> c \<noteq> CHR ''.''"
  using dec_digits_digits[of n] by auto

lemma decimal_places_point:
  assumes "\<And>c. c \<in> set xs \<Longrightarrow> c \<noteq> CHR ''.''"
  shows "decimal_places (xs @ ''.'' @ ys) = Some (length ys)"
proof -
  have "dropWhile (\<lambda>c. c \<noteq> CHR ''.'') (xs @ ''.'' @ ys) = dropWhile (\<lambda>c. c \<noteq> CHR ''.'') (''.'' @ ys)"
    using assms by (intro dropWhile_append2) auto
  then show ?thesis by (simp add: decimal_places_def)
qed

lemma toFixed_places:
  assumes "\<bar>r\<bar> < 10 ^ 21" "0 < f"
  shows "decimal_places (toFixed (Fin r) f) = Some f"
proof -
  define n where "n = \<lfloor>\<bar>r\<bar> * 10 ^ f + 1 / 2\<rfloor>"
  define m where "m = dec_digits n"
  define m' where "m' = replicate (f + 1 - length m) CHR ''0'' @ m"
  define s where "s = (if r < 0 then ''-'' else [])"
  have n0: "0 \<le> n" unfolding n_def by simp
  have k: "f + 1 \<le> length m'" unfolding m'_def by simp
  have tf: "toFixed (Fin r) f = (s @ take (length m' - f) m') @ ''.'' @ drop (length m' - f) m'"
    using assms by (simp add: toFixed_def Let_def n_def m_def m'_def s_def)
  have np: "c \<noteq> CHR ''.''" if "c \<in> set (s @ take (length m' - f) m')" for c
  proof -
    from that consider "c \<in> set s" | "c \<in> set m'" by (auto dest: in_set_takeD)
    then show ?thesis
    proof cases
      case 1 then show ?thesis by (auto simp: s_def split: if_splits)
    next
      case 2
      then consider "c = CHR ''0''" | "c \<in> set m" by (auto simp: m'_def)
      then show ?thesis
      proof cases
        case 1 then show ?thesis by simp
      next
        case 2 then show ?thesis using dec_digits_no_point[OF n0] by (simp add: m_def)
      qed
    qed
  qed
  have "decimal_places (toFixed (Fin r) f) = Some (length (drop (length m' - f) m'))"
    unfolding tf using np by (rule decimal_places_point)
  also have "length (drop (length m' - f) m') = f" using k by simp
  finally show ?thesis .
qed

lemma success_row_places:
  assumes "ownStake m = Fin a" "\<bar>a\<bar> < 10 ^ 21"
    and "activeStake m = Fin b" "\<bar>b\<bar> < 10 ^ 21"
    and "inactiveStake m = Fin c" "\<bar>c\<bar> < 10 ^ 21"
    and "totalNomination m = Fin d" "\<bar>d\<bar> < 10 ^ 21"
    and "totalActiveStake m = Fin e" "\<bar>e\<bar> < 10 ^ 21"
    and "commissionPct m = Fin p" "\<bar>p\<bar> < 10 ^ 21"
  shows "decimal_places (Self_Bond (formatReport v m)) = Some 4
       \<and> decimal_places (Active_Nomination (formatReport v m)) = Some 4
       \<and> decimal_places (Inactive_Nomination (formatReport v m)) = Some 4
       \<and> decimal_places (Total_Nomination (formatReport v m)) = Some 4
       \<and> decimal_places (Total_Active_Stake (formatReport v m)) = Some 4
       \<and> decimal_places (Commission (formatReport v m)) = Some 2"
  using assms by (simp add: formatReport_def toFixed_places)

lemma rows_cli:
  "processValidatorsBatch api_fail [''V1'', ''V2''] 1500 (buildNominatorsMap registry_ok) =
     [\<lparr> Validator = ''V1'', Self_Bond = ''100.0000'', Active_Nomination = ''1000.0000'',
        Inactive_Nomination = ''1400.0000'', Total_Nomination = ''2400.0000'',
        Total_Active_Stake = ''1100.0000'', Commission = ''5.00'', Nominators = ''1/3'' \<rparr>,
      \<lparr> Validator = ''V2'', Self_Bond = ''0.00'', Active_Nomination = ''0.00'',
        Inactive_Nomination = ''0.00'', Total_Nomination = ''0.00'',
        Total_Active_Stake = ''0.00'', Commission = ''0.00'', Nominators = ''0/0'' \<rparr>]"
  by code_simp

lemma rows_p0:
  "processValidatorsBatch_p0 api_fail [''V1'', ''V2''] 1500 (buildNominatorsMap registry_ok) =
     [\<lparr> Validator = ''V1'', Self_Bond = ''100.0000'', Active_Nomination = ''1000.0000'',
        Inactive_Nomination = ''1400.0000'', Total_Nomination = ''2400.0000'',
        Total_Active_Stake = ''1100.0000'', Commission = ''5.00'', Nominators = ''1/3'' \<rparr>,
      \<lparr> Validator = ''V2'', Self_Bond = ''0.00'', Active_Nomination = ''0.00'',
        Inactive_Nomination = ''0.00'', Total_Nomination = ''0.00'',
        Total_Active_Stake = ''0.00'', Commission = ''0.00'', Nominators = ''0/0'' \<rparr>]"
  by code_simp

lemma places_fallback:
  "map (\<lambda>r. decimal_places (Self_Bond r))
     (processValidatorsBatch api_fail [''V1'', ''V2''] 1500 (buildNominatorsMap registry_ok)) = [Some 4, Some 2]
   \<and> map (\<lambda>r. decimal_places (Active_Nomination r))
     (processValidatorsBatch api_fail [''V1'', ''V2''] 1500 (buildNominatorsMap registry_ok)) = [Some 4, Some 2]
   \<and> map (\<lambda>r. decimal_places (Inactive_Nomination r))
     (processValidatorsBatch api_fail [''V1'', ''V2''] 1500 (buildNominatorsMap registry_ok)) = [Some 4, Some 2]
   \<and> map (\<lambda>r. decimal_places (Total_Nomination r))
     (processValidatorsBatch api_fail [''V1'', ''V2''] 1500 (buildNominatorsMap registry_ok)) = [Some 4, Some 2]
   \<and> map (\<lambda>r. decimal_places (Total_Active_Stake r))
     (processValidatorsBatch api_fail [''V1'', ''V2''] 1500 (buildNominatorsMap registry_ok)) = [Some 4, Some 2]"
  unfolding rows_cli by code_simp

text \<open>
  Claim C7, at a failing input. A batch of two validators, in which the
  preferences query of the second one rejects: both scripts return the
  computed row of the first, whose amounts have four decimal places, and the
  fallback row of the second, whose amounts are the literal \<open>0.00\<close> with
  two. (\<open>success_row_places\<close> above: the rows computed from successful
  queries render every finite amount below \<open>10^21\<close> with exactly four
  decimal places and the commission with two.)
\<close>

theorem fallback_row_two_decimals:
  "processValidatorsBatch api_fail [''V1'', ''V2''] 1500 (buildNominatorsMap registry_ok) =
     [\<lparr> Validator = ''V1'', Self_Bond = ''100.0000'', Active_Nomination = ''1000.0000'',
        Inactive_Nomination = ''1400.0000'', Total_Nomination = ''2400.0000'',
        Total_Active_Stake = ''1100.0000'', Commission = ''5.00'', Nominators = ''1/3'' \<rparr>,
      \<lparr> Validator = ''V2'', Self_Bond = ''0.00'', Active_Nomination = ''0.00'',
        Inactive_Nomination = ''0.00'', Total_Nomination = ''0.00'',
        Total_Active_Stake = ''0.00'', Commission = ''0.00'', Nominators = ''0/0'' \<rparr>]
   \<and> processValidatorsBatch_p0 api_fail [''V1'', ''V2''] 1500 (buildNominatorsMap registry_ok) =
       processValidatorsBatch api_fail [''V1'', ''V2''] 1500 (buildNominatorsMap registry_ok)
   \<and> map (\<lambda>r. decimal_places (Self_Bond r))
     (processValidatorsBatch api_fail [''V1'', ''V2''] 1500 (buildNominatorsMap registry_ok)) = [Some 4, Some 2]
   \<and> map (\<lambda>r. decimal_places (Active_Nomination r))
     (processValidatorsBatch api_fail [''V1'', ''V2''] 1500 (buildNominatorsMap registry_ok)) = [Some 4, Some 2]
   \<and> map (\<lambda>r. decimal_places (Inactive_Nomination r))
     (processValidatorsBatch api_fail [''V1'', ''V2''] 1500 (buildNominatorsMap registry_ok)) = [Some 4, Some 2]
   \<and> map (\<lambda>r. decimal_places (Total_Nomination r))
     (processValidatorsBatch api_fail [''V1'', ''V2''] 1500 (buildNominatorsMap registry_ok)) = [Some 4, Some 2]
   \<and> map (\<lambda>r. decimal_places (Total_Active_Stake r))
     (processValidatorsBatch api_fail [''V1'', ''V2''] 1500 (buildNominatorsMap registry_ok)) = [Some 4, Some 2]"
  using rows_cli rows_p0 places_fallback by simp

section \<open>The cache miss\<close>

lemma trace_emit: "trace (emit e w) = trace w @ [e]"
  by (simp add: emit_def)

lemma cache_emit: "cache (emit e w) = cache w"
  by (simp add: emit_def)

lemma clock_emit: "clock (emit e w) = clock w"
  by (simp add: emit_def)

lemma write_fault_emit: "write_fault (emit e w) = write_fault w"
  by (simp add: emit_def)

lemma prefix_emit: "prefix (trace w) (trace (emit e w))"
  by (simp add: trace_emit)

lemma prefix_saveCache: "prefix (trace w) (trace (saveCache d w))"
  by (simp add: saveCache_def Let_def trace_emit split: option.splits)

lemma prefix_lookupOne: "prefix (trace w) (trace (lookupOne name a w))"
  by (auto simp: lookupOne_def Let_def trace_emit
      intro: prefix_order.trans[OF _ prefix_saveCache]
      split: sum.splits option.splits js_error.splits)

lemma prefix_fetchAll: "prefix (trace w) (trace (snd (fetchAll batch l a w)))"
  by (auto simp: fetchAll_def Let_def trace_emit
      intro: prefix_order.trans[OF _ prefix_saveCache]
      split: sum.splits option.splits)

lemma prefix_finish: "prefix (trace (snd rw)) (trace (finish b rw))"
  by (auto simp: finish_def Let_def trace_emit split: sum.splits js_error.splits)

lemma prefix_connect_loop: "prefix (trace w) (trace (snd (connect_loop up ps w)))"
proof (induction ps arbitrary: w)
  case Nil
  then show ?case by simp
next
  case (Cons p ps)
  show ?case
  proof (cases "up p")
    case True
    then show ?thesis by (simp add: trace_emit)
  next
    case False
    have "prefix (trace w) (trace (emit (Connect p False) w))" by (rule prefix_emit)
    also have "prefix \<dots> (trace (snd (connect_loop up ps (emit (Connect p False) w))))" by (rule Cons.IH)
    finally show ?thesis using False by simp
  qed
qed

lemma connect_loop_first:
  "\<exists>es. trace (snd (connect_loop up (p # ps) w)) = trace w @ Connect p (up p) # es"
proof (cases "up p")
  case True
  then show ?thesis by (simp add: trace_emit)
next
  case False
  from prefix_connect_loop[of "emit (Connect p False) w" up ps]
  obtain zs where "trace (snd (connect_loop up ps (emit (Connect p False) w))) = trace (emit (Connect p False) w) @ zs"
    by (auto simp: prefix_def)
  with False show ?thesis by (simp add: trace_emit)
qed

lemma connectToNetwork_first:
  "\<exists>es. trace (snd (connectToNetwork net w)) =
          trace w @ Connect (hd providers) (reachable net (hd providers)) # es"
proof -
  obtain p ps where ps: "providers = p # ps" by (simp add: providers_def)
  obtain r w' where c: "connect_loop (reachable net) (p # ps) w = (r, w')"
    by (cases "connect_loop (reachable net) (p # ps) w")
  from connect_loop_first[of "reachable net" p ps w] c
  obtain es where "trace w' = trace w @ Connect p (reachable net p) # es" by auto
  moreover have "trace (snd (connectToNetwork net w)) = trace w'"
    using c by (simp add: connectToNetwork_def ps)
  ultimately show ?thesis by (simp add: ps)
qed

lemma live_after_connect:
  assumes "prefix (trace (snd (connectToNetwork net w1))) (trace wfin)"
  shows "\<exists>es. trace wfin = trace w1 @ Connect (hd providers) (reachable net (hd providers)) # es"
proof -
  from connectToNetwork_first[of net w1] obtain es where
    "trace (snd (connectToNetwork net w1)) = trace w1 @ Connect (hd providers) (reachable net (hd providers)) # es"
    by blast
  with assms show ?thesis by (auto simp: prefix_def)
qed

lemma getValidators_miss:
  assumes "fst (loadCache opts w) = None"
  shows "\<exists>es. trace (getValidators opts net w) =
           trace (snd (loadCache opts w)) @ Connect (hd providers) (reachable net (hd providers)) # es"
proof -
  obtain w1 where l: "loadCache opts w = (None, w1)" using assms by (cases "loadCache opts w") auto
  obtain r w2 where c: "connectToNetwork net w1 = (r, w2)" by (cases "connectToNetwork net w1")
  have "prefix (trace w2) (trace (getValidators opts net w))"
  proof (cases r)
    case (Inl e)
    with l c show ?thesis using prefix_finish[of "(Inl e, w2)" False] by (simp add: getValidators_def)
  next
    case (Inr ep)
    show ?thesis
    proof (cases "validator_given opts")
      case True
      have "prefix (trace w2) (trace (lookupOne (the (validator opts)) (chain_api net) w2))"
        by (rule prefix_lookupOne)
      also have "prefix \<dots> (trace (finish True (Inr (), lookupOne (the (validator opts)) (chain_api net) w2)))"
        using prefix_finish[of "(Inr (), lookupOne (the (validator opts)) (chain_api net) w2)" True] by simp
      finally show ?thesis using l c Inr True by (simp add: getValidators_def)
    next
      case False
      have "prefix (trace w2) (trace (snd (fetchAll processValidatorsBatch (limit opts) (chain_api net) w2)))"
        by (rule prefix_fetchAll)
      also have "prefix \<dots> (trace (finish True (fetchAll processValidatorsBatch (limit opts) (chain_api net) w2)))"
        by (rule prefix_finish)
      finally show ?thesis using l c Inr False by (simp add: getValidators_def)
    qed
  qed
  with c have "prefix (trace (snd (connectToNetwork net w1))) (trace (getValidators opts net w))" by simp
  from live_after_connect[OF this] l show ?thesis by simp
qed

lemma getValidators_p0_miss:
  assumes "fst (loadCache_p0 w) = None"
  shows "\<exists>es. trace (getValidators_p0 net w) =
           trace (snd (loadCache_p0 w)) @ Connect (hd providers) (reachable net (hd providers)) # es"
proof -
  obtain w1 where l: "loadCache_p0 w = (None, w1)" using assms by (cases "loadCache_p0 w") auto
  obtain r w2 where c: "connectToNetwork net w1 = (r, w2)" by (cases "connectToNetwork net w1")
  have "prefix (trace w2) (trace (getValidators_p0 net w))"
  proof (cases r)
    case (Inl e)
    with l c show ?thesis using prefix_finish[of "(Inl e, w2)" False] by (simp add: getValidators_p0_def)
  next
    case (Inr ep)
    have "prefix (trace w2) (trace (snd (fetchAll processValidatorsBatch_p0 None (chain_api net) w2)))"
      by (rule prefix_fetchAll)
    also have "prefix \<dots> (trace (finish True (fetchAll processValidatorsBatch_p0 None (chain_api net) w2)))"
      by (rule prefix_finish)
    finally show ?thesis using l c Inr by (simp add: getValidators_p0_def)
  qed
  with c have "prefix (trace (snd (connectToNetwork net w1))) (trace (getValidators_p0 net w))" by simp
  from live_after_connect[OF this] l show ?thesis by simp
qed

lemma loadCache_try_cases:
  "cache w = Absent \<Longrightarrow> fst (loadCache_try r w) = Inr None"
  "cache w = Unreadable \<Longrightarrow> \<not> r \<Longrightarrow> isl (fst (loadCache_try r w))"
  "cache w = Unparsable \<Longrightarrow> \<not> r \<Longrightarrow> isl (fst (loadCache_try r w))"
  "cache w = ParsedNull \<Longrightarrow> \<not> r \<Longrightarrow> isl (fst (loadCache_try r w))"
  "r \<Longrightarrow> loadCache_try r w = (Inr None, emit (ExistsSync cacheFile) w)"
  "cache w = Parsed ts d \<Longrightarrow> \<not> js_lt (js_sub (Number_of (clock w)) ts) cacheTimeout
     \<Longrightarrow> fst (loadCache_try r w) = Inr None"
  by (simp_all add: loadCache_try_def Let_def)

lemma loadCache_of_try:
  "isl (fst (loadCache_try (refresh opts) w)) \<Longrightarrow> fst (loadCache opts w) = None"
  "fst (loadCache_try (refresh opts) w) = Inr x \<Longrightarrow> fst (loadCache opts w) = x"
  by (auto simp: loadCache_def split: prod.splits sum.splits js_error.splits)

lemma loadCache_p0_of_try:
  "isl (fst (loadCache_try False w)) \<Longrightarrow> fst (loadCache_p0 w) = None"
  "fst (loadCache_try False w) = Inr x \<Longrightarrow> fst (loadCache_p0 w) = x"
  by (auto simp: loadCache_p0_def split: prod.splits sum.splits js_error.splits)

lemma loadCache_miss_file:
  assumes "cache w = Absent \<or> cache w = Unreadable \<or> cache w = Unparsable \<or> cache w = ParsedNull"
  shows "fst (loadCache opts w) = None \<and> fst (loadCache_p0 w) = None"
proof -
  have "isl (fst (loadCache_try r w)) \<or> fst (loadCache_try r w) = Inr None" for r
    using assms by (cases r) (auto simp: loadCache_try_def Let_def)
  then show ?thesis
    using loadCache_of_try[of opts w] loadCache_p0_of_try[of w] by blast
qed

lemma loadCache_miss_expired:
  assumes "cache w = Parsed ts d" "\<not> js_lt (js_sub (Number_of (clock w)) ts) cacheTimeout"
  shows "fst (loadCache opts w) = None \<and> fst (loadCache_p0 w) = None"
  using loadCache_try_cases(6)[OF assms] loadCache_of_try(2)[of opts w None] loadCache_p0_of_try(2)[of w None]
  by simp

lemma loadCache_miss_age:
  assumes "cache w = Parsed (Fin (rat_of_nat t)) d" "clock w < 2 ^ 53" "t + 3600000 \<le> clock w"
  shows "fst (loadCache opts w) = None \<and> fst (loadCache_p0 w) = None"
proof -
  have "t < 2 ^ 53" using assms(2,3) by simp
  from age_test_exact[OF assms(2) this] assms(3)
  have "\<not> js_lt (js_sub (Number_of (clock w)) (Fin (rat_of_nat t))) cacheTimeout" by simp
  with assms(1) show ?thesis by (rule loadCache_miss_expired)
qed

lemma loadCache_refresh:
  "refresh opts \<Longrightarrow> loadCache opts w = (None, emit (ExistsSync cacheFile) w)"
  by (simp add: loadCache_def loadCache_try_cases(5))

text \<open>
  Claim C9. \<open>loadCache\<close> never throws, in either script: every exception of
  its \<open>try\<close> block ends in the miss value. It returns the miss value when
  the file is absent, cannot be read, does not parse or parses to \<open>null\<close>,
  and when the age test of the code fails; in particular when the entry was
  written at \<open>t\<close> and the clock has reached \<open>t + 3600000\<close> (times below
  \<open>2^53\<close>, where binary64 is exact). With the refresh flag, validator-cli.js
  returns the miss after \<open>existsSync\<close> alone, without reading the file. After
  a miss the run goes on to the network: the next effect is the connection
  attempt on the first provider.
\<close>

theorem loadCache_never_throws:
  "(isl (fst (loadCache_try (refresh opts) w)) \<longrightarrow> fst (loadCache opts w) = None)
   \<and> (isl (fst (loadCache_try False w)) \<longrightarrow> fst (loadCache_p0 w) = None)
   \<and> (cache w = Absent \<or> cache w = Unreadable \<or> cache w = Unparsable \<or> cache w = ParsedNull \<longrightarrow>
        fst (loadCache opts w) = None \<and> fst (loadCache_p0 w) = None)
   \<and> (cache w = Parsed ts d \<longrightarrow> \<not> js_lt (js_sub (Number_of (clock w)) ts) cacheTimeout \<longrightarrow>
        fst (loadCache opts w) = None \<and> fst (loadCache_p0 w) = None)
   \<and> (cache w = Parsed (Fin (rat_of_nat t)) d \<longrightarrow> clock w < 2 ^ 53 \<longrightarrow> t + 3600000 \<le> clock w \<longrightarrow>
        fst (loadCache opts w) = None \<and> fst (loadCache_p0 w) = None)
   \<and> (refresh opts \<longrightarrow> loadCache opts w = (None, emit (ExistsSync cacheFile) w))
   \<and> (fst (loadCache opts w) = None \<longrightarrow>
        (\<exists>es. trace (getValidators opts net w) =
           trace (snd (loadCache opts w)) @ Connect (hd providers) (reachable net (hd providers)) # es))
   \<and> (fst (loadCache_p0 w) = None \<longrightarrow>
        (\<exists>es. trace (getValidators_p0 net w) =
           trace (snd (loadCache_p0 w)) @ Connect (hd providers) (reachable net (hd providers)) # es))"
  using loadCache_of_try(1)[of opts w] loadCache_p0_of_try(1)[of w]
    loadCache_miss_file[of w opts] loadCache_miss_expired[of w ts d opts]
    loadCache_miss_age[of w t d opts] loadCache_refresh[of opts w]
    getValidators_miss[of opts w net] getValidators_p0_miss[of w net]
  by blast


lemma stale_not_fresh:
  "\<not> js_lt (js_sub (Number_of (clock world_stale)) (Fin 1699990000000)) cacheTimeout"
  by code_simp

theorem loadCache_never_throws_witness:
  "isl (fst (loadCache_try (refresh opts_all) world_corrupt))
   \<and> isl (fst (loadCache_try False world_corrupt))
   \<and> cache world_corrupt = Unparsable
   \<and> fst (loadCache opts_all world_corrupt) = None
   \<and> fst (loadCache_p0 world_corrupt) = None
   \<and> (\<exists>es. trace (getValidators opts_all net_ok world_corrupt) =
           trace (snd (loadCache opts_all world_corrupt))
             @ Connect (hd providers) (reachable net_ok (hd providers)) # es)
   \<and> (\<exists>es. trace (getValidators_p0 net_ok world_corrupt) =
           trace (snd (loadCache_p0 world_corrupt))
             @ Connect (hd providers) (reachable net_ok (hd providers)) # es)
   \<and> cache world_stale = Parsed (Fin 1699990000000) (Some (JArr []))
   \<and> \<not> js_lt (js_sub (Number_of (clock world_stale)) (Fin 1699990000000)) cacheTimeout
   \<and> clock world_stale < 2 ^ 53
   \<and> 1699990000000 + 3600000 \<le> clock world_stale
   \<and> fst (loadCache opts_all world_stale) = None
   \<and> refresh opts_refresh
   \<and> loadCache opts_refresh world0 = (None, emit (ExistsSync cacheFile) world0)"
proof -
  have c1: "isl (fst (loadCache_try (refresh opts_all) world_corrupt))"
    by (simp add: loadCache_try_def Let_def world_corrupt_def world0_def opts_all_def)
  have c2: "isl (fst (loadCache_try False world_corrupt))"
    by (simp add: loadCache_try_def Let_def world_corrupt_def world0_def)
  have c3: "cache world_corrupt = Unparsable"
    by (simp add: world_corrupt_def)
  have s1: "cache world_stale = Parsed (Fin 1699990000000) (Some (JArr []))"
    by (simp add: world_stale_def)
  have s1': "cache world_stale = Parsed (Fin (rat_of_nat 1699990000000)) (Some (JArr []))"
    by (simp add: world_stale_def)
  have s2: "clock world_stale < 2 ^ 53"
    by (simp add: world_stale_def world0_def)
  have s3: "1699990000000 + 3600000 \<le> clock world_stale"
    by (simp add: world_stale_def world0_def)
  have r: "refresh opts_refresh"
    by (simp add: opts_refresh_def)
  note t1 = loadCache_never_throws[of opts_all world_corrupt "Fin 0" None 0 net_ok]
  note t2 = loadCache_never_throws[of opts_all world_stale "Fin 1699990000000" "Some (JArr [])" 1699990000000 net_ok]
  note t3 = loadCache_never_throws[of opts_refresh world0 "Fin 0" None 0 net_ok]
  from t1 c1 c2 c3 have a: "fst (loadCache opts_all world_corrupt) = None"
    and b: "fst (loadCache_p0 world_corrupt) = None" by blast+
  from t1 a b have e1: "\<exists>es. trace (getValidators opts_all net_ok world_corrupt) =
           trace (snd (loadCache opts_all world_corrupt))
             @ Connect (hd providers) (reachable net_ok (hd providers)) # es"
    and e2: "\<exists>es. trace (getValidators_p0 net_ok world_corrupt) =
           trace (snd (loadCache_p0 world_corrupt))
             @ Connect (hd providers) (reachable net_ok (hd providers)) # es" by blast+
  from t2 s1 stale_not_fresh have f1: "fst (loadCache opts_all world_stale) = None" by blast
  from t2 s1' s2 s3 have f2: "fst (loadCache_p0 world_stale) = None" by blast
  from t3 r have g: "loadCache opts_refresh world0 = (None, emit (ExistsSync cacheFile) world0)" by blast
  from c1 c2 c3 a b e1 e2 s1 stale_not_fresh s2 s3 f1 r g show ?thesis by blast
qed

section \<open>The scope of the cache entry\<close>

lemma run1_cache:
  "cache (getValidators opts_one net_ok world0) = Parsed (Fin 1700000002000) (Some (reports_json [row_V1]))"
  by code_simp

lemma run2_trace:
  "trace (getValidators opts_all net_ok world_single) =
     [ExistsSync cacheFile, ReadFileSync cacheFile, ConsoleTable (reports_json [row_V1])]"
  by code_simp

lemma fresh_trace:
  "trace (getValidators opts_all net_ok world0) =
     [ExistsSync cacheFile, Connect ''wss://rpc.polkadot.io'' True,
      ConsoleTable (reports_json [row_V1, row_V2]),
      WriteFileSync cacheFile (Fin 1700000002000) (reports_json [row_V1, row_V2]), Disconnect]"
  by code_simp


lemma single_cache:
  "cache world_single = Parsed (Fin 1700000002000) (Some (JArr [report_json row_V1]))"
  by code_simp

lemma single_fresh:
  "js_lt (js_sub (Number_of (clock world_single)) (Fin 1700000002000)) cacheTimeout"
  by code_simp

lemma find_V1: "find_validator ''V1'' [report_json row_V1] = Inr (Some (report_json row_V1))"
  by code_simp

lemma loadCache_hit:
  assumes "cache w = Parsed ts d" "js_lt (js_sub (Number_of (clock w)) ts) cacheTimeout" "\<not> refresh opts"
  shows "loadCache opts w = (d, emit (ReadFileSync cacheFile) (emit (ExistsSync cacheFile) w))"
  using assms by (simp add: loadCache_def loadCache_try_def Let_def)

lemma finish_ok: "finish False (Inr (), w) = w" "finish True (Inr (), w) = emit Disconnect w"
  by (simp_all add: finish_def)

lemma getValidators_cached_all:
  assumes "cache w = Parsed ts (Some (JArr rows))"
    and "js_lt (js_sub (Number_of (clock w)) ts) cacheTimeout"
    and "\<not> refresh opts" and "\<not> validator_given opts"
  shows "getValidators opts net w =
           emit (ConsoleTable (JArr (if limit_given opts then slice0 rows (the (limit opts)) else rows)))
             (emit (ReadFileSync cacheFile) (emit (ExistsSync cacheFile) w))"
  using assms(4) by (simp add: getValidators_def loadCache_hit[OF assms(1,2,3)] showCached_def finish_ok)

lemma getValidators_cached_one:
  assumes "cache w = Parsed ts (Some (JArr rows))"
    and "js_lt (js_sub (Number_of (clock w)) ts) cacheTimeout"
    and "\<not> refresh opts" and "validator opts = Some name" and "name \<noteq> []"
    and "find_validator name rows = Inr (Some r)"
  shows "getValidators opts net w =
           emit (ConsoleTable (JArr [r])) (emit (ReadFileSync cacheFile) (emit (ExistsSync cacheFile) w))"
proof -
  have "validator_given opts" using assms(4,5) by (simp add: validator_given_def)
  then show ?thesis
    using assms(4,6)
    by (simp add: getValidators_def loadCache_hit[OF assms(1,2,3)] showCached_def finish_ok)
qed

lemma getValidators_lookup:
  assumes "loadCache opts w0 = (None, w1)" and "connectToNetwork net w1 = (Inr ep, w2)"
    and "validator opts = Some name" and "name \<noteq> []"
    and "activeEra (chain_api net) = Inr (Some era)"
    and "nominators_entries (chain_api net) = Inr nd"
  shows "getValidators opts net w0 =
           emit Disconnect
             (saveCache (reports_json [processValidator (chain_api net) era (buildNominatorsMap nd) name])
                (emit (ConsoleTable (reports_json [processValidator (chain_api net) era (buildNominatorsMap nd) name])) w2))"
proof -
  have "validator_given opts" using assms(3,4) by (simp add: validator_given_def)
  then show ?thesis
    using assms
    by (simp add: getValidators_def lookupOne_def Let_def finish_ok processValidatorsBatch_def)
qed

lemma cache_after_save:
  "write_fault w = None \<Longrightarrow>
   cache (emit e' (saveCache d (emit e w))) = Parsed (Number_of (clock w)) (Some d)"
  by (simp add: saveCache_def Let_def emit_def)

text \<open>
  Claim C3, as amended. The cache is one entry without a scope. A lookup of
  one validator that misses the cache, connects and reads the era and the
  registry writes its single row as that entry. While the age test passes and
  without the refresh flag, a run over the validator set is satisfied from
  whatever array the entry holds, that single row included: it prints the
  cached rows (cut to the limit, when one is given) and makes no connection;
  and a lookup of one validator is satisfied by the row of the cached array
  that carries its name. The counterexample is a lookup of \<open>V1\<close> followed ten
  minutes later by a run over the set, which prints the row of \<open>V1\<close> alone,
  where a run without a cache prints the rows of \<open>V1\<close> and \<open>V2\<close>.
\<close>

theorem cache_entry_unscoped:
  "(loadCache opts1 w0 = (None, w1) \<longrightarrow> connectToNetwork net w1 = (Inr ep, w2) \<longrightarrow>
      validator opts1 = Some name \<longrightarrow> name \<noteq> [] \<longrightarrow>
      activeEra (chain_api net) = Inr (Some era) \<longrightarrow> nominators_entries (chain_api net) = Inr nd \<longrightarrow>
      write_fault w2 = None \<longrightarrow>
      cache (getValidators opts1 net w0) =
        Parsed (Number_of (clock w2))
          (Some (reports_json [processValidator (chain_api net) era (buildNominatorsMap nd) name])))
   \<and> (cache w = Parsed ts (Some (JArr rows)) \<longrightarrow>
        js_lt (js_sub (Number_of (clock w)) ts) cacheTimeout \<longrightarrow>
        \<not> refresh opts \<longrightarrow> \<not> validator_given opts \<longrightarrow>
        getValidators opts net' w =
           emit (ConsoleTable (JArr (if limit_given opts then slice0 rows (the (limit opts)) else rows)))
             (emit (ReadFileSync cacheFile) (emit (ExistsSync cacheFile) w)))
   \<and> (cache w = Parsed ts (Some (JArr rows)) \<longrightarrow>
        js_lt (js_sub (Number_of (clock w)) ts) cacheTimeout \<longrightarrow>
        \<not> refresh opts \<longrightarrow> validator opts = Some name' \<longrightarrow> name' \<noteq> [] \<longrightarrow>
        find_validator name' rows = Inr (Some r) \<longrightarrow>
        getValidators opts net' w =
           emit (ConsoleTable (JArr [r])) (emit (ReadFileSync cacheFile) (emit (ExistsSync cacheFile) w)))"
proof -
  have 1: "cache (getValidators opts1 net w0) =
        Parsed (Number_of (clock w2))
          (Some (reports_json [processValidator (chain_api net) era (buildNominatorsMap nd) name]))"
    if "loadCache opts1 w0 = (None, w1)" "connectToNetwork net w1 = (Inr ep, w2)"
      "validator opts1 = Some name" "name \<noteq> []"
      "activeEra (chain_api net) = Inr (Some era)" "nominators_entries (chain_api net) = Inr nd"
      "write_fault w2 = None"
    using getValidators_lookup[OF that(1-6)] cache_after_save[OF that(7)] by simp
  show ?thesis
    using 1 getValidators_cached_all[of w ts rows opts net']
      getValidators_cached_one[of w ts rows opts name' r net']
    by blast
qed

theorem full_run_from_single_entry_counterexample:
  "cache (getValidators opts_one net_ok world0) = Parsed (Fin 1700000002000) (Some (reports_json [row_V1]))
   \<and> trace (getValidators opts_all net_ok world_single) =
       [ExistsSync cacheFile, ReadFileSync cacheFile, ConsoleTable (reports_json [row_V1])]
   \<and> trace (getValidators opts_all net_ok world0) =
       [ExistsSync cacheFile, Connect ''wss://rpc.polkadot.io'' True,
        ConsoleTable (reports_json [row_V1, row_V2]),
        WriteFileSync cacheFile (Fin 1700000002000) (reports_json [row_V1, row_V2]), Disconnect]"
  using run1_cache run2_trace fresh_trace by simp


lemma lookup_hyps:
  "loadCache opts_one world0 = (None, snd (loadCache opts_one world0))"
  "connectToNetwork net_ok (snd (loadCache opts_one world0)) =
     (Inr (hd providers), snd (connectToNetwork net_ok (snd (loadCache opts_one world0))))"
  "write_fault (snd (connectToNetwork net_ok (snd (loadCache opts_one world0)))) = None"
  by (simp_all add: loadCache_def loadCache_try_def Let_def opts_one_def world0_def emit_def
      connectToNetwork_def providers_def net_ok_def)

theorem cache_entry_unscoped_witness:
  "loadCache opts_one world0 = (None, snd (loadCache opts_one world0))
   \<and> connectToNetwork net_ok (snd (loadCache opts_one world0)) =
       (Inr (hd providers), snd (connectToNetwork net_ok (snd (loadCache opts_one world0))))
   \<and> validator opts_one = Some ''V1'' \<and> ''V1'' \<noteq> []
   \<and> activeEra (chain_api net_ok) = Inr (Some 1500)
   \<and> nominators_entries (chain_api net_ok) = Inr registry_ok
   \<and> write_fault (snd (connectToNetwork net_ok (snd (loadCache opts_one world0)))) = None
   \<and> cache (getValidators opts_one net_ok world0) =
        Parsed (Number_of (clock (snd (connectToNetwork net_ok (snd (loadCache opts_one world0))))))
          (Some (reports_json [processValidator (chain_api net_ok) 1500 (buildNominatorsMap registry_ok) ''V1'']))
   \<and> cache world_single = Parsed (Fin 1700000002000) (Some (JArr [report_json row_V1]))
   \<and> js_lt (js_sub (Number_of (clock world_single)) (Fin 1700000002000)) cacheTimeout
   \<and> \<not> refresh opts_all \<and> \<not> validator_given opts_all \<and> \<not> refresh opts_one
   \<and> getValidators opts_all net_ok world_single =
        emit (ConsoleTable (JArr (if limit_given opts_all then slice0 [report_json row_V1] (the (limit opts_all))
                                  else [report_json row_V1])))
          (emit (ReadFileSync cacheFile) (emit (ExistsSync cacheFile) world_single))
   \<and> find_validator ''V1'' [report_json row_V1] = Inr (Some (report_json row_V1))
   \<and> getValidators opts_one net_ok world_single =
        emit (ConsoleTable (JArr [report_json row_V1]))
          (emit (ReadFileSync cacheFile) (emit (ExistsSync cacheFile) world_single))"
proof -
  have v: "validator opts_one = Some ''V1''" "''V1'' \<noteq> []" "\<not> refresh opts_one"
    by (simp_all add: opts_one_def)
  have n: "activeEra (chain_api net_ok) = Inr (Some 1500)"
    "nominators_entries (chain_api net_ok) = Inr registry_ok"
    by (simp_all add: net_ok_def api_ok_def)
  have o: "\<not> refresh opts_all" "\<not> validator_given opts_all"
    by (simp_all add: opts_all_def validator_given_def)
  note t1 = cache_entry_unscoped[of opts_one world0 "snd (loadCache opts_one world0)" net_ok
      "hd providers" "snd (connectToNetwork net_ok (snd (loadCache opts_one world0)))" "''V1''" 1500
      registry_ok world_single "Fin 1700000002000" "[report_json row_V1]" opts_all net_ok
      "''V1''" "report_json row_V1"]
  note t2 = cache_entry_unscoped[of opts_one world0 "snd (loadCache opts_one world0)" net_ok
      "hd providers" "snd (connectToNetwork net_ok (snd (loadCache opts_one world0)))" "''V1''" 1500
      registry_ok world_single "Fin 1700000002000" "[report_json row_V1]" opts_one net_ok
      "''V1''" "report_json row_V1"]
  from t1 lookup_hyps v n have a: "cache (getValidators opts_one net_ok world0) =
        Parsed (Number_of (clock (snd (connectToNetwork net_ok (snd (loadCache opts_one world0))))))
          (Some (reports_json [processValidator (chain_api net_ok) 1500 (buildNominatorsMap registry_ok) ''V1'']))"
    by blast
  from t1 single_cache single_fresh o have b: "getValidators opts_all net_ok world_single =
        emit (ConsoleTable (JArr (if limit_given opts_all then slice0 [report_json row_V1] (the (limit opts_all))
                                  else [report_json row_V1])))
          (emit (ReadFileSync cacheFile) (emit (ExistsSync cacheFile) world_single))"
    by blast
  from t2 single_cache single_fresh v find_V1 have c: "getValidators opts_one net_ok world_single =
        emit (ConsoleTable (JArr [report_json row_V1]))
          (emit (ReadFileSync cacheFile) (emit (ExistsSync cacheFile) world_single))"
    by blast
  from lookup_hyps v n o a b c single_cache single_fresh find_V1 show ?thesis by blast
qed

section \<open>The default limit\<close>

lemma slice0_max: "slice0 vs maxValidators = take 100 vs"
  by (simp add: slice0_def maxValidators_def)

lemma fetchAll_unlimited:
  assumes "session_validators a = Inr vs" "activeEra a = Inr (Some era)" "nominators_entries a = Inr nd"
  shows "fetchAll batch None a w =
           (Inr (), saveCache
              (reports_json (sort_js compareRows
                 (batchLoop (\<lambda>b. batch a b era (buildNominatorsMap nd)) (take 100 vs) 0 [])))
              (emit (ConsoleTable
                 (reports_json (sort_js compareRows
                    (batchLoop (\<lambda>b. batch a b era (buildNominatorsMap nd)) (take 100 vs) 0 []))))
                 w))"
proof -
  have m: "maxValidators \<noteq> 0" by (simp add: maxValidators_def)
  show ?thesis using assms m by (simp add: fetchAll_def Let_def slice0_max)
qed

lemma finish_pair: "finish True (Inr (), w) = emit Disconnect w"
  by (simp add: finish_def)

lemma getValidators_full:
  assumes "loadCache opts w = (None, w1)" "connectToNetwork net w1 = (Inr ep, w2)"
    and "\<not> validator_given opts" "limit opts = None"
    and "session_validators (chain_api net) = Inr vs"
    and "activeEra (chain_api net) = Inr (Some era)"
    and "nominators_entries (chain_api net) = Inr nd"
  shows "getValidators opts net w =
           emit Disconnect (saveCache
              (reports_json (sort_js compareRows
                 (processValidatorsBatch (chain_api net) (take 100 vs) era (buildNominatorsMap nd))))
              (emit (ConsoleTable
                 (reports_json (sort_js compareRows
                    (processValidatorsBatch (chain_api net) (take 100 vs) era (buildNominatorsMap nd)))))
                 w2))"
  using assms(1-4)
  by (simp add: getValidators_def fetchAll_unlimited[OF assms(5-7)] batchLoop_batches finish_pair)

lemma getValidators_p0_full:
  assumes "loadCache_p0 w = (None, w1)" "connectToNetwork net w1 = (Inr ep, w2)"
    and "session_validators (chain_api net) = Inr vs"
    and "activeEra (chain_api net) = Inr (Some era)"
    and "nominators_entries (chain_api net) = Inr nd"
  shows "getValidators_p0 net w =
           emit Disconnect (saveCache
              (reports_json (sort_js compareRows
                 (processValidatorsBatch_p0 (chain_api net) (take 100 vs) era (buildNominatorsMap nd))))
              (emit (ConsoleTable
                 (reports_json (sort_js compareRows
                    (processValidatorsBatch_p0 (chain_api net) (take 100 vs) era (buildNominatorsMap nd)))))
                 w2))"
  using assms(1-2)
  by (simp add: getValidators_p0_def fetchAll_unlimited[OF assms(3-5)] batchLoop_batches_p0 finish_pair)

lemma length_rows:
  "length (sort_js compareRows (processValidatorsBatch a (take 100 vs) era nm)) = min 100 (length vs)"
  "length (sort_js compareRows (processValidatorsBatch_p0 a (take 100 vs) era nm)) = min 100 (length vs)"
  by (simp_all add: length_sort_js processValidatorsBatch_def processValidatorsBatch_p0_def min_def)

text \<open>
  Claim C10. A run over the validator set without a limit option, after a
  cache miss and a successful connection, processes the first 100 validators
  of the session only: in both scripts the rows printed and the rows saved
  to the cache are the sorted rows of \<open>take 100\<close> of the session's
  validators. Their number is the smaller of 100 and the size of the session,
  hence 100 whenever the session has more than 100 validators.
\<close>

theorem default_limit_100:
  "(loadCache opts w = (None, w1) \<longrightarrow> connectToNetwork net w1 = (Inr ep, w2) \<longrightarrow>
      \<not> validator_given opts \<longrightarrow> limit opts = None \<longrightarrow>
      session_validators (chain_api net) = Inr vs \<longrightarrow>
      activeEra (chain_api net) = Inr (Some era) \<longrightarrow>
      nominators_entries (chain_api net) = Inr nd \<longrightarrow>
      getValidators opts net w =
           emit Disconnect (saveCache
              (reports_json (sort_js compareRows
                 (processValidatorsBatch (chain_api net) (take 100 vs) era (buildNominatorsMap nd))))
              (emit (ConsoleTable
                 (reports_json (sort_js compareRows
                    (processValidatorsBatch (chain_api net) (take 100 vs) era (buildNominatorsMap nd)))))
                 w2)))
   \<and> (loadCache_p0 w = (None, w1') \<longrightarrow> connectToNetwork net w1' = (Inr ep', w2') \<longrightarrow>
      session_validators (chain_api net) = Inr vs \<longrightarrow>
      activeEra (chain_api net) = Inr (Some era) \<longrightarrow>
      nominators_entries (chain_api net) = Inr nd \<longrightarrow>
      getValidators_p0 net w =
           emit Disconnect (saveCache
              (reports_json (sort_js compareRows
                 (processValidatorsBatch_p0 (chain_api net) (take 100 vs) era (buildNominatorsMap nd))))
              (emit (ConsoleTable
                 (reports_json (sort_js compareRows
                    (processValidatorsBatch_p0 (chain_api net) (take 100 vs) era (buildNominatorsMap nd)))))
                 w2')))
   \<and> length (sort_js compareRows
                 (processValidatorsBatch (chain_api net) (take 100 vs) era (buildNominatorsMap nd)))
        = min 100 (length vs)
   \<and> length (sort_js compareRows
                 (processValidatorsBatch_p0 (chain_api net) (take 100 vs) era (buildNominatorsMap nd)))
        = min 100 (length vs)
   \<and> (100 < length vs \<longrightarrow>
        length (sort_js compareRows
                 (processValidatorsBatch (chain_api net) (take 100 vs) era (buildNominatorsMap nd))) = 100
        \<and> length (sort_js compareRows
                 (processValidatorsBatch_p0 (chain_api net) (take 100 vs) era (buildNominatorsMap nd))) = 100)"
proof -
  have l: "100 < length vs \<Longrightarrow> min 100 (length vs) = 100" by simp
  show ?thesis
    using getValidators_full[of opts w w1 net ep w2 vs era nd]
      getValidators_p0_full[of w w1' net ep' w2' vs era nd]
      length_rows[of "chain_api net" vs era "buildNominatorsMap nd"] l
    by presburger
qed


lemma big_hyps:
  "loadCache opts_all world0 = (None, snd (loadCache opts_all world0))"
  "connectToNetwork net_big (snd (loadCache opts_all world0)) =
     (Inr (hd providers), snd (connectToNetwork net_big (snd (loadCache opts_all world0))))"
  "loadCache_p0 world0 = (None, snd (loadCache_p0 world0))"
  "connectToNetwork net_big (snd (loadCache_p0 world0)) =
     (Inr (hd providers), snd (connectToNetwork net_big (snd (loadCache_p0 world0))))"
  "\<not> validator_given opts_all" "limit opts_all = None"
  "session_validators (chain_api net_big) = Inr validators_150"
  "activeEra (chain_api net_big) = Inr (Some 1500)"
  "nominators_entries (chain_api net_big) = Inr registry_ok"
  by (simp_all add: loadCache_def loadCache_p0_def loadCache_try_def Let_def opts_all_def world0_def
      emit_def connectToNetwork_def providers_def net_big_def net_ok_def api_ok_def validator_given_def)

lemma big_length: "100 < length validators_150"
  by (simp add: validators_150_def)

theorem default_limit_100_witness:
  "loadCache opts_all world0 = (None, snd (loadCache opts_all world0))
   \<and> connectToNetwork net_big (snd (loadCache opts_all world0)) =
       (Inr (hd providers), snd (connectToNetwork net_big (snd (loadCache opts_all world0))))
   \<and> loadCache_p0 world0 = (None, snd (loadCache_p0 world0))
   \<and> connectToNetwork net_big (snd (loadCache_p0 world0)) =
       (Inr (hd providers), snd (connectToNetwork net_big (snd (loadCache_p0 world0))))
   \<and> \<not> validator_given opts_all \<and> limit opts_all = None
   \<and> session_validators (chain_api net_big) = Inr validators_150
   \<and> activeEra (chain_api net_big) = Inr (Some 1500)
   \<and> nominators_entries (chain_api net_big) = Inr registry_ok
   \<and> 100 < length validators_150
   \<and> getValidators opts_all net_big world0 =
           emit Disconnect (saveCache
              (reports_json (sort_js compareRows
                 (processValidatorsBatch (chain_api net_big) (take 100 validators_150) 1500 (buildNominatorsMap registry_ok))))
              (emit (ConsoleTable
                 (reports_json (sort_js compareRows
                    (processValidatorsBatch (chain_api net_big) (take 100 validators_150) 1500 (buildNominatorsMap registry_ok)))))
                 (snd (connectToNetwork net_big (snd (loadCache opts_all world0))))))
   \<and> getValidators_p0 net_big world0 =
           emit Disconnect (saveCache
              (reports_json (sort_js compareRows
                 (processValidatorsBatch_p0 (chain_api net_big) (take 100 validators_150) 1500 (buildNominatorsMap registry_ok))))
              (emit (ConsoleTable
                 (reports_json (sort_js compareRows
                    (processValidatorsBatch_p0 (chain_api net_big) (take 100 validators_150) 1500 (buildNominatorsMap registry_ok)))))
                 (snd (connectToNetwork net_big (snd (loadCache_p0 world0))))))
   \<and> length (sort_js compareRows
                 (processValidatorsBatch (chain_api net_big) (take 100 validators_150) 1500 (buildNominatorsMap registry_ok))) = 100
   \<and> length (sort_js compareRows
                 (processValidatorsBatch_p0 (chain_api net_big) (take 100 validators_150) 1500 (buildNominatorsMap registry_ok))) = 100"
  using default_limit_100[of opts_all world0 "snd (loadCache opts_all world0)" net_big "hd providers"
      "snd (connectToNetwork net_big (snd (loadCache opts_all world0)))" validators_150 1500 registry_ok
      "snd (loadCache_p0 world0)" "hd providers" "snd (connectToNetwork net_big (snd (loadCache_p0 world0)))"]
    big_hyps big_length
  by blast

end
